theory Spec2Isabelle
  imports Complex_Main "HOL-Library.Word" "HOL-Library.Multiset" "HOL-Library.AList"
begin

section \<open>Signer: session manager (internal/signer/session.go)\<close>

text \<open>
  Bytes are 8-bit words, byte slices are lists. Instants (\<open>time.Time\<close>) are integers
  counting nanoseconds from Go's zero instant, durations are integers counting
  nanoseconds. Go's \<open>*big.Int\<close> is an unbounded \<open>int\<close>; a nil pointer is \<open>None\<close>.
  An Ethereum address (\<open>common.Address\<close>, 20 bytes) is a 160-bit word.
\<close>

type_synonym byte = "8 word"
type_synonym bytes = "byte list"
type_synonym address = "160 word"
type_synonym instant = int
type_synonym duration = int

text \<open>\<open>big.Int.Bytes\<close>: the big-endian bytes of the absolute value, no leading zero.\<close>

fun nat_be_bytes :: "nat \<Rightarrow> bytes" where
  "nat_be_bytes n = (if n = 0 then [] else nat_be_bytes (n div 256) @ [of_nat (n mod 256)])"

declare nat_be_bytes.simps [simp del]

definition big_Bytes :: "int \<Rightarrow> bytes" where
  "big_Bytes x = nat_be_bytes (nat \<bar>x\<bar>)"

text \<open>\<open>common.LeftPadBytes\<close>: a slice at least as long as \<open>l\<close> is returned as it is.\<close>

definition LeftPadBytes :: "bytes \<Rightarrow> nat \<Rightarrow> bytes" where
  "LeftPadBytes b l =
     (if l \<le> length b then b else replicate (l - length b) 0 @ b)"

text \<open>\<open>common.Address.Bytes\<close>: always 20 bytes.\<close>

definition address_Bytes :: "address \<Rightarrow> bytes" where
  "address_Bytes a = LeftPadBytes (nat_be_bytes (unat a)) 20"

definition string_bytes :: "string \<Rightarrow> bytes" where
  "string_bytes s = map of_char s"

text \<open>
  The libraries the signer calls (go-ethereum's \<open>crypto\<close> and \<open>common\<close>, memguard,
  \<open>math/big\<close> parsing) are not part of the repository. They are taken as parameters:
  one record of functions, passed to every operation that calls one of them.
\<close>

record 'k crypto =
  Keccak256 :: "bytes \<Rightarrow> bytes"
  ToECDSA :: "bytes \<Rightarrow> 'k option"
  PubkeyToAddressHex :: "'k \<Rightarrow> string"
  EnclaveOpen :: "bytes \<Rightarrow> bytes option"
  EcdsaSign :: "bytes \<Rightarrow> 'k \<Rightarrow> bytes option"
  HexToAddress :: "string \<Rightarrow> address"
  SetString10 :: "string \<Rightarrow> int \<times> bool"

datatype sign_error =
    ErrNoActiveSession
  | ErrSessionExpired
  | ErrValueLimitExceeded
  | ErrInvalidPrivateKey
  | ErrOpenEnclave
  | ErrParsePrivateKey
  | ErrEcdsaSign
  | PanicNilPointer
  | PanicIndexOutOfRange

record OrderData =
  Salt :: int
  Maker :: address
  Signer :: address
  Taker :: address
  TokenID :: int
  MakerAmount :: int
  TakerAmount :: int
  Expiration :: int
  Nonce :: int
  FeeRateBps :: int
  Side :: byte
  SignatureType :: byte

record DomainData =
  Name :: string
  Version :: string
  ChainID :: int
  VerifyingContract :: address

record SessionManager =
  enclave :: "bytes option"
  address :: string
  expiresAt :: instant
  maxValueLimit :: "int option"
  valueUsed :: int
  ttl :: duration

definition NewSessionManager :: "duration \<Rightarrow> SessionManager" where
  "NewSessionManager t =
     \<lparr>enclave = None, address = [], expiresAt = 0, maxValueLimit = None,
      valueUsed = 0, ttl = t\<rparr>"

definition eip712DomainTypeHash :: "'k crypto \<Rightarrow> bytes" where
  "eip712DomainTypeHash env = Keccak256 env (string_bytes
     ''EIP712Domain(string name,string version,uint256 chainId,address verifyingContract)'')"

definition orderTypeHash :: "'k crypto \<Rightarrow> bytes" where
  "orderTypeHash env = Keccak256 env (string_bytes
     ''Order(uint256 salt,address maker,address signer,address taker,uint256 tokenId,uint256 makerAmount,uint256 takerAmount,uint256 expiration,uint256 nonce,uint256 feeRateBps,uint8 side,uint8 signatureType)'')"

definition hashDomain :: "'k crypto \<Rightarrow> DomainData \<Rightarrow> bytes" where
  "hashDomain env d = Keccak256 env
     (eip712DomainTypeHash env
      @ Keccak256 env (string_bytes (Name d))
      @ Keccak256 env (string_bytes (Version d))
      @ LeftPadBytes (big_Bytes (ChainID d)) 32
      @ LeftPadBytes (address_Bytes (VerifyingContract d)) 32)"

definition hashOrder :: "'k crypto \<Rightarrow> OrderData \<Rightarrow> bytes" where
  "hashOrder env od = Keccak256 env
     (orderTypeHash env
      @ LeftPadBytes (big_Bytes (Salt od)) 32
      @ LeftPadBytes (address_Bytes (Maker od)) 32
      @ LeftPadBytes (address_Bytes (Signer od)) 32
      @ LeftPadBytes (address_Bytes (Taker od)) 32
      @ LeftPadBytes (big_Bytes (TokenID od)) 32
      @ LeftPadBytes (big_Bytes (MakerAmount od)) 32
      @ LeftPadBytes (big_Bytes (TakerAmount od)) 32
      @ LeftPadBytes (big_Bytes (Expiration od)) 32
      @ LeftPadBytes (big_Bytes (Nonce od)) 32
      @ LeftPadBytes (big_Bytes (FeeRateBps od)) 32
      @ LeftPadBytes (big_Bytes (uint (Side od))) 32
      @ LeftPadBytes (big_Bytes (uint (SignatureType od))) 32)"

definition eip712Digest :: "'k crypto \<Rightarrow> bytes \<Rightarrow> bytes \<Rightarrow> bytes" where
  "eip712Digest env domainHash structHash =
     Keccak256 env ([0x19, 0x01] @ domainHash @ structHash)"

text \<open>\<open>isExpired\<close>: \<open>time.Now().After(sm.expiresAt)\<close>, a strict comparison.\<close>

definition isExpired :: "instant \<Rightarrow> SessionManager \<Rightarrow> bool" where
  "isExpired now sm = (expiresAt sm < now)"

definition destroyLocked :: "SessionManager \<Rightarrow> SessionManager" where
  "destroyLocked sm = sm\<lparr>enclave := None, address := [], valueUsed := 0, maxValueLimit := None\<rparr>"

definition Destroy :: "SessionManager \<Rightarrow> SessionManager" where
  "Destroy sm = destroyLocked sm"

text \<open>
  \<open>Activate\<close>: the key is parsed first (an invalid key leaves the manager as it was),
  then the session fields are reset. \<open>now\<close> is the reading of \<open>time.Now()\<close>.
\<close>

definition Activate ::
  "'k crypto \<Rightarrow> instant \<Rightarrow> SessionManager \<Rightarrow> bytes \<Rightarrow> int \<Rightarrow> (sign_error + unit) \<times> SessionManager" where
  "Activate env now sm keyBytes limit =
     (case ToECDSA env keyBytes of
        None \<Rightarrow> (Inl ErrInvalidPrivateKey, sm)
      | Some privKey \<Rightarrow>
          (Inr (), sm\<lparr>enclave := Some keyBytes,
                      expiresAt := now + ttl sm,
                      maxValueLimit := Some limit,
                      valueUsed := 0,
                      address := PubkeyToAddressHex env privKey\<rparr>))"

text \<open>
  \<open>Sign\<close>, check by check in the order of the source. The result pairs the returned
  value (an error, or the signature) with the manager after the call. Comparing with a
  nil limit and indexing a signature shorter than 65 bytes are the two places where the
  Go code would panic; both are branches of the model.
\<close>

definition Sign ::
  "'k crypto \<Rightarrow> instant \<Rightarrow> SessionManager \<Rightarrow> int \<Rightarrow> DomainData \<Rightarrow> OrderData
     \<Rightarrow> (sign_error + bytes) \<times> SessionManager" where
  "Sign env now sm orderValue domain order =
     (case enclave sm of
        None \<Rightarrow> (Inl ErrNoActiveSession, sm)
      | Some sealed \<Rightarrow>
          if isExpired now sm then (Inl ErrSessionExpired, destroyLocked sm)
          else
            let newTotal = valueUsed sm + orderValue in
            (case maxValueLimit sm of
               None \<Rightarrow> (Inl PanicNilPointer, sm)
             | Some limit \<Rightarrow>
                 if limit < newTotal then (Inl ErrValueLimitExceeded, sm)
                 else
                   let digest = eip712Digest env (hashDomain env domain) (hashOrder env order) in
                   (case EnclaveOpen env sealed of
                      None \<Rightarrow> (Inl ErrOpenEnclave, sm)
                    | Some buf \<Rightarrow>
                        (case ToECDSA env buf of
                           None \<Rightarrow> (Inl ErrParsePrivateKey, sm)
                         | Some privKey \<Rightarrow>
                             (case EcdsaSign env digest privKey of
                                None \<Rightarrow> (Inl ErrEcdsaSign, sm)
                              | Some sig \<Rightarrow>
                                  if length sig \<le> 64 then (Inl PanicIndexOutOfRange, sm)
                                  else (Inr (sig[64 := sig ! 64 + 27]),
                                        sm\<lparr>valueUsed := newTotal\<rparr>))))))"

text \<open>Decimal rendering of a big integer (\<open>big.Int.String\<close>).\<close>

fun nat_dec :: "nat \<Rightarrow> string" where
  "nat_dec n = (if n < 10 then [''0123456789'' ! n]
                else nat_dec (n div 10) @ [''0123456789'' ! (n mod 10)])"

declare nat_dec.simps [simp del]

definition big_String :: "int \<Rightarrow> string" where
  "big_String x = (if x < 0 then CHR ''-'' # nat_dec (nat (- x)) else nat_dec (nat x))"

definition big_ptr_String :: "int option \<Rightarrow> string" where
  "big_ptr_String p = (case p of None \<Rightarrow> ''<nil>'' | Some x \<Rightarrow> big_String x)"

text \<open>
  \<open>Status\<close>. The remaining time is \<open>time.Until(expiresAt).Seconds()\<close> truncated to an
  integer; it is only computed on the branch where the session has not expired, where
  the difference is not negative, and the model takes the whole seconds of it.
\<close>

record status =
  active :: bool
  ttlRemaining :: int
  maxLimit :: string
  used :: string
  st_address :: string

definition Status :: "instant \<Rightarrow> SessionManager \<Rightarrow> status" where
  "Status now sm =
     (case enclave sm of
        None \<Rightarrow> \<lparr>active = False, ttlRemaining = 0, maxLimit = ''0'', used = ''0'', st_address = []\<rparr>
      | Some sealed \<Rightarrow>
          if isExpired now sm
          then \<lparr>active = False, ttlRemaining = 0, maxLimit = ''0'', used = ''0'', st_address = []\<rparr>
          else
            let remaining = expiresAt sm - now in
            \<lparr>active = True,
             ttlRemaining = (if remaining < 0 then 0 else remaining div 1000000000),
             maxLimit = big_ptr_String (maxValueLimit sm),
             used = big_String (valueUsed sm),
             st_address = address sm\<rparr>)"

section \<open>Signer: RPC handler (internal/signer/handler.go)\<close>

text \<open>
  Modelled from the spec: the generated protobuf messages of \<open>internal/gen/signer/v1\<close>
  are not among the sources. The request and response carry the fields the handler
  reads and the tests set (section 4.9 of the specification); \<open>condition_id\<close> is a
  request field the handler never reads. An enum value other than the named ones is
  \<open>ORDER_SIDE_OTHER\<close> or \<open>SIGNATURE_TYPE_OTHER\<close>.
\<close>

datatype OrderSide = ORDER_SIDE_BUY | ORDER_SIDE_SELL | ORDER_SIDE_OTHER nat

datatype SignatureTypePb =
    SIGNATURE_TYPE_EOA
  | SIGNATURE_TYPE_POLY_PROXY
  | SIGNATURE_TYPE_POLY_GNOSIS_SAFE
  | SIGNATURE_TYPE_OTHER nat

record PolymarketOrder =
  pb_Maker :: string
  pb_Taker :: string
  pb_TokenId :: string
  pb_ConditionId :: string
  pb_Side :: OrderSide
  pb_MakerAmount :: string
  pb_TakerAmount :: string
  pb_Expiration :: "64 word"
  pb_Nonce :: "64 word"
  pb_FeeRateBps :: "32 word"
  pb_SignatureType :: SignatureTypePb

record EIP712Domain =
  pb_Name :: string
  pb_Version :: string
  pb_ChainId :: "64 word"
  pb_VerifyingContract :: string

record SignOrderRequest =
  req_Order :: "PolymarketOrder option"
  req_Domain :: "EIP712Domain option"

record SignOrderResponse =
  Signature :: string
  SignerAddress :: string
  SignedAt :: int

datatype rpc_error =
    InvalidArgument
  | FailedPrecondition
  | ResourceExhausted
  | Internal
  | RpcPanic

fun protoSideToUint8 :: "OrderSide \<Rightarrow> byte" where
  "protoSideToUint8 ORDER_SIDE_BUY = 0"
| "protoSideToUint8 ORDER_SIDE_SELL = 1"
| "protoSideToUint8 (ORDER_SIDE_OTHER n) = 0"

fun protoSigTypeToUint8 :: "SignatureTypePb \<Rightarrow> byte" where
  "protoSigTypeToUint8 SIGNATURE_TYPE_EOA = 0"
| "protoSigTypeToUint8 SIGNATURE_TYPE_POLY_PROXY = 1"
| "protoSigTypeToUint8 SIGNATURE_TYPE_POLY_GNOSIS_SAFE = 2"
| "protoSigTypeToUint8 (SIGNATURE_TYPE_OTHER n) = 0"

text \<open>\<open>hex.EncodeToString\<close>: two lower-case digits for every byte.\<close>

definition hex_digit :: "nat \<Rightarrow> char" where
  "hex_digit n = ''0123456789abcdef'' ! n"

definition hex_EncodeToString :: "bytes \<Rightarrow> string" where
  "hex_EncodeToString bs = concat (map (\<lambda>b. [hex_digit (unat b div 16), hex_digit (unat b mod 16)]) bs)"

text \<open>\<open>time.Time.UnixNano\<close>: nanoseconds since 1970, the zero instant being year 1.\<close>

definition unix_epoch :: instant where
  "unix_epoch = 62135596800 * 1000000000"

definition UnixNano :: "instant \<Rightarrow> int" where
  "UnixNano t = t - unix_epoch"

text \<open>
  The two values \<open>SignOrder\<close> builds from the request before it calls \<open>Sign\<close>
  (lines 43 to 72 of the handler). A failed \<open>SetString\<close> of the token id or the taker
  amount is not checked there: whatever the parser leaves in the receiver is used.
\<close>

definition SignOrder_domain :: "'k crypto \<Rightarrow> EIP712Domain \<Rightarrow> DomainData" where
  "SignOrder_domain env d =
     \<lparr>Name = pb_Name d,
      Version = pb_Version d,
      ChainID = sint (pb_ChainId d),
      VerifyingContract = HexToAddress env (pb_VerifyingContract d)\<rparr>"

definition SignOrder_order :: "'k crypto \<Rightarrow> PolymarketOrder \<Rightarrow> OrderData" where
  "SignOrder_order env po =
     \<lparr>Salt = 0,
      Maker = HexToAddress env (pb_Maker po),
      Signer = HexToAddress env (pb_Maker po),
      Taker = HexToAddress env (pb_Taker po),
      TokenID = fst (SetString10 env (pb_TokenId po)),
      MakerAmount = fst (SetString10 env (pb_MakerAmount po)),
      TakerAmount = fst (SetString10 env (pb_TakerAmount po)),
      Expiration = uint (pb_Expiration po),
      Nonce = uint (pb_Nonce po),
      FeeRateBps = uint (pb_FeeRateBps po),
      Side = protoSideToUint8 (pb_Side po),
      SignatureType = protoSigTypeToUint8 (pb_SignatureType po)\<rparr>"

fun sign_error_code :: "sign_error \<Rightarrow> rpc_error" where
  "sign_error_code ErrNoActiveSession = FailedPrecondition"
| "sign_error_code ErrSessionExpired = FailedPrecondition"
| "sign_error_code ErrValueLimitExceeded = ResourceExhausted"
| "sign_error_code PanicNilPointer = RpcPanic"
| "sign_error_code PanicIndexOutOfRange = RpcPanic"
| "sign_error_code e = Internal"

text \<open>
  \<open>SignOrder\<close> reads the clock three times: inside \<open>Sign\<close>, inside \<open>Status\<close> and for
  \<open>SignedAt\<close>. The three readings are the arguments \<open>t1\<close>, \<open>t2\<close>, \<open>t3\<close>.
\<close>

definition SignOrder ::
  "'k crypto \<Rightarrow> instant \<Rightarrow> instant \<Rightarrow> instant \<Rightarrow> SessionManager \<Rightarrow> SignOrderRequest
     \<Rightarrow> (rpc_error + SignOrderResponse) \<times> SessionManager" where
  "SignOrder env t1 t2 t3 sm req =
     (case req_Order req of
        None \<Rightarrow> (Inl InvalidArgument, sm)
      | Some po \<Rightarrow>
          (case req_Domain req of
             None \<Rightarrow> (Inl InvalidArgument, sm)
           | Some pd \<Rightarrow>
               if \<not> snd (SetString10 env (pb_MakerAmount po)) then (Inl InvalidArgument, sm)
               else
                 (case Sign env t1 sm (fst (SetString10 env (pb_MakerAmount po)))
                         (SignOrder_domain env pd) (SignOrder_order env po) of
                    (Inl e, sm') \<Rightarrow> (Inl (sign_error_code e), sm')
                  | (Inr sig, sm') \<Rightarrow>
                      (Inr \<lparr>Signature = ''0x'' @ hex_EncodeToString sig,
                            SignerAddress = st_address (Status t2 sm'),
                            SignedAt = UnixNano t3\<rparr>, sm'))))"

definition GetSessionStatus :: "instant \<Rightarrow> SessionManager \<Rightarrow> status" where
  "GetSessionStatus now sm = Status now sm"

text \<open>
  The digest a request is signed over, as \<open>Sign\<close> computes it from the two values above.
\<close>

definition SignOrder_digest :: "'k crypto \<Rightarrow> EIP712Domain \<Rightarrow> PolymarketOrder \<Rightarrow> bytes" where
  "SignOrder_digest env pd po =
     eip712Digest env (hashDomain env (SignOrder_domain env pd))
                      (hashOrder env (SignOrder_order env po))"

text \<open>
  A sequence of \<open>Sign\<close> calls against one manager, each with its own clock reading, and
  the sum of the order values of the calls that returned a signature.
\<close>

record sign_call =
  c_now :: instant
  c_value :: int
  c_domain :: DomainData
  c_order :: OrderData

fun approved_notional :: "'k crypto \<Rightarrow> SessionManager \<Rightarrow> sign_call list \<Rightarrow> int" where
  "approved_notional env sm [] = 0"
| "approved_notional env sm (c # cs) =
     (case Sign env (c_now c) sm (c_value c) (c_domain c) (c_order c) of
        (Inl e, sm') \<Rightarrow> approved_notional env sm' cs
      | (Inr sig, sm') \<Rightarrow> c_value c + approved_notional env sm' cs)"

text \<open>
  A concrete instance of the library parameters, used to run the model on examples: a
  key is any 32-byte string, the hash is constant, a signature is 64 bytes and the
  recovery id 1.
\<close>

definition example_crypto :: "bytes crypto" where
  "example_crypto =
     \<lparr>Keccak256 = (\<lambda>b. replicate 32 0),
      ToECDSA = (\<lambda>b. if length b = 32 then Some b else None),
      PubkeyToAddressHex = (\<lambda>k. ''0xA''),
      EnclaveOpen = (\<lambda>b. Some b),
      EcdsaSign = (\<lambda>d k. Some (replicate 64 7 @ [1])),
      HexToAddress = (\<lambda>s. of_nat (length s)),
      SetString10 = (\<lambda>s. (int (length s), True))\<rparr>"

section \<open>Market data: common types and the WebSocket transport\<close>

text \<open>
  The \<open>float64\<close> prices and sizes of book levels are modelled by real numbers: the
  finite values, with exact arithmetic and comparison. (The validator, further down,
  compares \<open>float64\<close> values that a caller supplies, and has a type with not-a-number
  and the infinities.) \<open>Exchange\<close> is a string type in the source.
\<close>

type_synonym Exchange = string

definition ExchangePolymarket :: Exchange where
  "ExchangePolymarket = ''polymarket''"

definition ExchangeKalshi :: Exchange where
  "ExchangeKalshi = ''kalshi''"

record PriceLevel =
  Price :: real
  Size :: real

record BookUpdate =
  Exchange :: Exchange
  MarketID :: string
  AssetID :: string
  Bids :: "PriceLevel list"
  Asks :: "PriceLevel list"
  Timestamp :: instant
  Hash :: string

datatype CircuitState = CircuitClosed | CircuitOpen

text \<open>
  The part of \<open>WSClient\<close> the decoders and the breaker touch: the atomic circuit state
  and the subscriber channels. A channel of capacity 512 is the list of the frames
  waiting in it; \<open>Subscribe\<close> appends a new channel and returns its position, \<open>fanOut\<close>
  offers a frame to every channel and skips the full ones.
\<close>

record WSClient =
  circuit :: CircuitState
  subs :: "bytes list list"

definition NewWSClient :: WSClient where
  "NewWSClient = \<lparr>circuit = CircuitClosed, subs = []\<rparr>"

definition Circuit :: "WSClient \<Rightarrow> CircuitState" where
  "Circuit ws = circuit ws"

definition Subscribe :: "WSClient \<Rightarrow> nat \<times> WSClient" where
  "Subscribe ws = (length (subs ws), ws\<lparr>subs := subs ws @ [[]]\<rparr>)"

definition fanOut :: "WSClient \<Rightarrow> bytes \<Rightarrow> WSClient" where
  "fanOut ws msg =
     ws\<lparr>subs := map (\<lambda>ch. if length ch < 512 then ch @ [msg] else ch) (subs ws)\<rparr>"

section \<open>Circuit breaker\<close>

record CircuitBreakerConfig =
  StaleThreshold :: duration
  CoolOff :: duration
  PollInterval :: duration

definition Millisecond :: duration where
  "Millisecond = 1000000"

definition Second :: duration where
  "Second = 1000000000"

definition DefaultCircuitBreakerConfig :: CircuitBreakerConfig where
  "DefaultCircuitBreakerConfig =
     \<lparr>StaleThreshold = 1000 * Millisecond, CoolOff = 2 * Second, PollInterval = 100 * Millisecond\<rparr>"

record marketState =
  LastUpdate :: instant
  RecoveredAt :: instant
  Healthy :: bool

text \<open>
  The breaker keeps pointers to the transports it watches. A pointer is a reference
  (a number); the transports themselves live in a store that the caller passes, so that
  a change of a transport's circuit is seen by the breaker, as through the pointer.
\<close>

type_synonym ws_ref = nat
type_synonym subKey = "Exchange \<times> string"

record CircuitBreaker =
  cfg :: CircuitBreakerConfig
  conns :: "Exchange \<rightharpoonup> ws_ref"
  markets :: "subKey \<rightharpoonup> marketState"
  halted :: bool

definition NewCircuitBreaker :: "CircuitBreakerConfig \<Rightarrow> CircuitBreaker" where
  "NewCircuitBreaker c = \<lparr>cfg = c, conns = Map.empty, markets = Map.empty, halted = False\<rparr>"

definition WatchConnection :: "CircuitBreaker \<Rightarrow> Exchange \<Rightarrow> ws_ref \<Rightarrow> CircuitBreaker" where
  "WatchConnection cb exchange ws = cb\<lparr>conns := (conns cb)(exchange \<mapsto> ws)\<rparr>"

definition ManualHalt :: "CircuitBreaker \<Rightarrow> CircuitBreaker" where
  "ManualHalt cb = cb\<lparr>halted := True\<rparr>"

definition Resume :: "CircuitBreaker \<Rightarrow> CircuitBreaker" where
  "Resume cb = cb\<lparr>halted := False\<rparr>"

text \<open>
  \<open>time.Time.Sub\<close> saturates at the largest and smallest \<open>Duration\<close> (64 bits);
  \<open>IsZero\<close> recognises the zero instant.
\<close>

definition time_Sub :: "instant \<Rightarrow> instant \<Rightarrow> duration" where
  "time_Sub t u =
     (let d = t - u in
      if d > 2 ^ 63 - 1 then 2 ^ 63 - 1 else if d < - (2 ^ 63) then - (2 ^ 63) else d)"

definition IsZero :: "instant \<Rightarrow> bool" where
  "IsZero t = (t = 0)"

definition CanTrade ::
  "CircuitBreaker \<Rightarrow> (ws_ref \<Rightarrow> WSClient) \<Rightarrow> instant \<Rightarrow> Exchange \<Rightarrow> string \<Rightarrow> bool" where
  "CanTrade cb store now exchange marketID =
     (if halted cb then False
      else if (case conns cb exchange of
                 None \<Rightarrow> False
               | Some ws \<Rightarrow> Circuit (store ws) = CircuitOpen) then False
      else
        (case markets cb (exchange, marketID) of
           None \<Rightarrow> False
         | Some ms \<Rightarrow>
             if time_Sub now (LastUpdate ms) > StaleThreshold (cfg cb) then False
             else if \<not> IsZero (RecoveredAt ms) \<and> time_Sub now (RecoveredAt ms) < CoolOff (cfg cb)
             then False
             else True))"

definition recordUpdate :: "CircuitBreaker \<Rightarrow> instant \<Rightarrow> BookUpdate \<Rightarrow> CircuitBreaker" where
  "recordUpdate cb now update =
     (let key = (Exchange update, MarketID update);
          ms = (case markets cb key of
                  None \<Rightarrow> \<lparr>LastUpdate = 0, RecoveredAt = 0, Healthy = False\<rparr>
                | Some ms \<Rightarrow> ms);
          wasHealthy = Healthy ms;
          ms1 = ms\<lparr>LastUpdate := now, Healthy := True\<rparr>;
          ms2 = (if \<not> wasHealthy \<and> Healthy ms1 then ms1\<lparr>RecoveredAt := now\<rparr> else ms1)
      in cb\<lparr>markets := (markets cb)(key \<mapsto> ms2)\<rparr>)"

definition MarkStale :: "CircuitBreaker \<Rightarrow> Exchange \<Rightarrow> string \<Rightarrow> CircuitBreaker" where
  "MarkStale cb exchange marketID =
     (case markets cb (exchange, marketID) of
        None \<Rightarrow> cb
      | Some ms \<Rightarrow> cb\<lparr>markets := (markets cb)((exchange, marketID) \<mapsto> ms\<lparr>Healthy := False\<rparr>)\<rparr>)"

text \<open>
  \<open>Run\<close> applies \<open>recordUpdate\<close> to every update of the feed, each at the clock reading
  of its arrival.
\<close>

fun Run_breaker :: "CircuitBreaker \<Rightarrow> (instant \<times> BookUpdate) list \<Rightarrow> CircuitBreaker" where
  "Run_breaker cb [] = cb"
| "Run_breaker cb ((now, u) # rest) = Run_breaker (recordUpdate cb now u) rest"

text \<open>
  The operations of the breaker as events, to speak of what happens between two calls of
  \<open>CanTrade\<close>: an update of the feed with the clock reading at its arrival, and the four
  calls that change the breaker.
\<close>

datatype breaker_event =
    EvUpdate instant BookUpdate
  | EvMarkStale Exchange string
  | EvManualHalt
  | EvResume
  | EvWatchConnection Exchange ws_ref

fun apply_event :: "CircuitBreaker \<Rightarrow> breaker_event \<Rightarrow> CircuitBreaker" where
  "apply_event cb (EvUpdate now u) = recordUpdate cb now u"
| "apply_event cb (EvMarkStale exchange marketID) = MarkStale cb exchange marketID"
| "apply_event cb EvManualHalt = ManualHalt cb"
| "apply_event cb EvResume = Resume cb"
| "apply_event cb (EvWatchConnection exchange ws) = WatchConnection cb exchange ws"

fun apply_events :: "CircuitBreaker \<Rightarrow> breaker_event list \<Rightarrow> CircuitBreaker" where
  "apply_events cb [] = cb"
| "apply_events cb (e # es) = apply_events (apply_event cb e) es"

text \<open>An event that is an update for the given exchange and market.\<close>

fun updates_market :: "Exchange \<Rightarrow> string \<Rightarrow> breaker_event \<Rightarrow> bool" where
  "updates_market exchange marketID (EvUpdate now u) =
     (Exchange u = exchange \<and> MarketID u = marketID)"
| "updates_market exchange marketID e = False"

section \<open>Venue decoders\<close>

subsection \<open>Kalshi (internal/adapter/kalshi/adapter.go)\<close>

text \<open>
  Go's \<open>int\<close> is a 64-bit word, read as a signed number. A Go map from cents to quantity
  is an association list with one entry for each key. The order in which \<open>range\<close> visits
  a map is not fixed by the language: it is the parameter \<open>rng\<close> of the functions that
  iterate. The \<open>updates\<close> channel (capacity 1024) is the list of the updates waiting in it.
\<close>

type_synonym go_int = "64 word"
type_synonym cents_map = "(go_int \<times> go_int) list"

record rawSnapshot =
  s_MarketTicker :: string
  s_MarketID :: string
  s_Yes :: "(go_int \<times> go_int) list"
  s_No :: "(go_int \<times> go_int) list"

record rawDelta =
  d_MarketTicker :: string
  d_MarketID :: string
  d_Price :: go_int
  d_Delta :: go_int
  d_Side :: string
  d_Ts :: string

record orderBook =
  ob_MarketTicker :: string
  ob_MarketID :: string
  Yes :: cents_map
  No :: cents_map

record KalshiAdapter =
  raw :: nat
  updates :: "BookUpdate list"
  books :: "string \<rightharpoonup> orderBook"
  cmdID :: int

definition map_get :: "cents_map \<Rightarrow> go_int \<Rightarrow> go_int" where
  "map_get m k = (case map_of m k of None \<Rightarrow> 0 | Some v \<Rightarrow> v)"

definition map_set :: "cents_map \<Rightarrow> go_int \<Rightarrow> go_int \<Rightarrow> cents_map" where
  "map_set m k v = AList.update k v m"

definition map_delete :: "cents_map \<Rightarrow> go_int \<Rightarrow> cents_map" where
  "map_delete m k = AList.delete k m"

definition kalshi_New :: "WSClient \<Rightarrow> KalshiAdapter \<times> WSClient" where
  "kalshi_New ws =
     (let (ch, ws') = Subscribe ws
      in (\<lparr>raw = ch, updates = [], books = Map.empty, cmdID = 0\<rparr>, ws'))"

text \<open>
  \<open>centsToLevels\<close> appends one level for every entry that \<open>range\<close> visits;
  \<open>cents_level\<close> is the level it builds from an entry.
\<close>

definition cents_level :: "go_int \<times> go_int \<Rightarrow> PriceLevel" where
  "cents_level e = \<lparr>Price = real_of_int (sint (fst e)) / 100, Size = real_of_int (sint (snd e))\<rparr>"

definition centsToLevels :: "(cents_map \<Rightarrow> cents_map) \<Rightarrow> cents_map \<Rightarrow> PriceLevel list" where
  "centsToLevels rng m = map cents_level (rng m)"

definition emitUpdate ::
  "(cents_map \<Rightarrow> cents_map) \<Rightarrow> instant \<Rightarrow> KalshiAdapter \<Rightarrow> orderBook \<Rightarrow> KalshiAdapter" where
  "emitUpdate rng now ka book =
     (let update = \<lparr>Exchange = ExchangeKalshi,
                    MarketID = ob_MarketID book,
                    AssetID = ob_MarketTicker book,
                    Bids = centsToLevels rng (Yes book),
                    Asks = centsToLevels rng (No book),
                    Timestamp = now,
                    Hash = []\<rparr>
      in if length (updates ka) < 1024 then ka\<lparr>updates := updates ka @ [update]\<rparr> else ka)"

text \<open>
  The handlers take the decoded message; \<open>None\<close> is a frame that \<open>json.Unmarshal\<close>
  rejected.
\<close>

definition handleSnapshot ::
  "(cents_map \<Rightarrow> cents_map) \<Rightarrow> instant \<Rightarrow> KalshiAdapter \<Rightarrow> rawSnapshot option \<Rightarrow> KalshiAdapter" where
  "handleSnapshot rng now ka msg =
     (case msg of
        None \<Rightarrow> ka
      | Some snap \<Rightarrow>
          let book = \<lparr>ob_MarketTicker = s_MarketTicker snap,
                      ob_MarketID = s_MarketID snap,
                      Yes = fold (\<lambda>(p, q) m. map_set m p q) (s_Yes snap) [],
                      No = fold (\<lambda>(p, q) m. map_set m p q) (s_No snap) []\<rparr>
          in emitUpdate rng now (ka\<lparr>books := (books ka)(s_MarketTicker snap \<mapsto> book)\<rparr>) book)"

definition apply_delta :: "cents_map \<Rightarrow> go_int \<Rightarrow> go_int \<Rightarrow> cents_map" where
  "apply_delta side price delta =
     (let newQty = map_get side price + delta
      in if sint newQty \<le> 0 then map_delete side price else map_set side price newQty)"

definition handleDelta ::
  "(cents_map \<Rightarrow> cents_map) \<Rightarrow> instant \<Rightarrow> KalshiAdapter \<Rightarrow> rawDelta option \<Rightarrow> KalshiAdapter" where
  "handleDelta rng now ka msg =
     (case msg of
        None \<Rightarrow> ka
      | Some delta \<Rightarrow>
          (case books ka (d_MarketTicker delta) of
             None \<Rightarrow> ka
           | Some book \<Rightarrow>
               let book' = (if d_Side delta = ''no''
                            then book\<lparr>No := apply_delta (No book) (d_Price delta) (d_Delta delta)\<rparr>
                            else book\<lparr>Yes := apply_delta (Yes book) (d_Price delta) (d_Delta delta)\<rparr>)
               in emitUpdate rng now (ka\<lparr>books := (books ka)(d_MarketTicker delta \<mapsto> book')\<rparr>) book'))"

subsection \<open>Polymarket (internal/adapter/poly/adapter.go)\<close>

text \<open>
  \<open>New\<close> stores the transport and makes the \<open>updates\<close> channel; it does not touch the
  transport. \<open>Run\<close> begins with \<open>sub := pa.ws.Subscribe()\<close>: \<open>poly_Run_subscribe\<close> is that
  first statement.
\<close>

record PolyAdapter =
  p_updates :: "BookUpdate list"

definition poly_New :: "WSClient \<Rightarrow> PolyAdapter \<times> WSClient" where
  "poly_New ws = (\<lparr>p_updates = []\<rparr>, ws)"

definition poly_Run_subscribe :: "WSClient \<Rightarrow> nat \<times> WSClient" where
  "poly_Run_subscribe ws = Subscribe ws"

section \<open>Persistence writer\<close>











section \<open>Order validator (internal/engine)\<close>

text \<open>
  \<open>Side\<close>, \<open>OrderType\<close> and \<open>Status\<close> are \<open>uint8\<close> with named constants counted from 1.
\<close>

definition Buy :: byte where "Buy = 1"
definition Sell :: byte where "Sell = 2"

definition Limit :: byte where "Limit = 1"
definition Market :: byte where "Market = 2"
definition StopLoss :: byte where "StopLoss = 3"

definition StatusNew :: byte where "StatusNew = 1"
definition StatusValidated :: byte where "StatusValidated = 2"
definition StatusPending :: byte where "StatusPending = 3"
definition StatusFilled :: byte where "StatusFilled = 4"
definition StatusCancelled :: byte where "StatusCancelled = 5"
definition StatusRejected :: byte where "StatusRejected = 6"

text \<open>
  \<open>float64\<close> as the validator compares it: a finite value, an infinity, or not-a-number.
  Every comparison with not-a-number is false, as in Go.
\<close>

datatype float64 = NaN | NegInf | Fin real | PosInf

fun f64_lt :: "float64 \<Rightarrow> float64 \<Rightarrow> bool" where
  "f64_lt NaN y = False"
| "f64_lt x NaN = False"
| "f64_lt PosInf y = False"
| "f64_lt x NegInf = False"
| "f64_lt NegInf y = True"
| "f64_lt x PosInf = True"
| "f64_lt (Fin a) (Fin b) = (a < b)"

fun f64_le :: "float64 \<Rightarrow> float64 \<Rightarrow> bool" where
  "f64_le NaN y = False"
| "f64_le x NaN = False"
| "f64_le NegInf y = True"
| "f64_le x PosInf = True"
| "f64_le PosInf y = False"
| "f64_le x NegInf = False"
| "f64_le (Fin a) (Fin b) = (a \<le> b)"

definition f64_ge :: "float64 \<Rightarrow> float64 \<Rightarrow> bool" where
  "f64_ge x y = f64_le y x"

record Order =
  OrderID :: string
  UserID :: string
  o_Exchange :: Exchange
  o_MarketID :: string
  o_AssetID :: string
  o_Side :: byte
  o_Type :: byte
  o_Price :: float64
  Quantity :: float64
  o_Status :: byte
  CreatedAt :: instant

record ExchangeConstraints =
  MinPrice :: float64
  MaxPrice :: float64
  MinLotSize :: float64

definition DefaultConstraints :: "Exchange \<rightharpoonup> ExchangeConstraints" where
  "DefaultConstraints =
     [ExchangePolymarket \<mapsto> \<lparr>MinPrice = Fin 0, MaxPrice = Fin 1, MinLotSize = Fin 1\<rparr>,
      ExchangeKalshi \<mapsto> \<lparr>MinPrice = Fin 0, MaxPrice = Fin 1, MinLotSize = Fin 1\<rparr>]"

datatype validate_error =
    ErrInvalidSide
  | ErrInvalidType
  | ErrUnknownExchange
  | ErrPriceOutOfRange
  | ErrQuantityTooLow
  | ErrCircuitOpen

text \<open>
  The gate is an interface with the one method \<open>CanTrade\<close>: a function of the exchange
  and the market.
\<close>

record Validator =
  gate :: "Exchange \<Rightarrow> string \<Rightarrow> bool"
  constraints :: "Exchange \<rightharpoonup> ExchangeConstraints"

definition NewValidator :: "(Exchange \<Rightarrow> string \<Rightarrow> bool) \<Rightarrow> Validator" where
  "NewValidator g = \<lparr>gate = g, constraints = DefaultConstraints\<rparr>"

definition validate :: "Validator \<Rightarrow> Order \<Rightarrow> validate_error option" where
  "validate v order =
     (if o_Side order \<noteq> Buy \<and> o_Side order \<noteq> Sell then Some ErrInvalidSide
      else if o_Type order \<noteq> Limit \<and> o_Type order \<noteq> Market \<and> o_Type order \<noteq> StopLoss
      then Some ErrInvalidType
      else
        (case constraints v (o_Exchange order) of
           None \<Rightarrow> Some ErrUnknownExchange
         | Some ec \<Rightarrow>
             if (o_Type order = Limit \<or> o_Type order = StopLoss)
                \<and> (f64_le (o_Price order) (MinPrice ec) \<or> f64_ge (o_Price order) (MaxPrice ec))
             then Some ErrPriceOutOfRange
             else if f64_lt (Quantity order) (MinLotSize ec) then Some ErrQuantityTooLow
             else if \<not> gate v (o_Exchange order) (o_MarketID order) then Some ErrCircuitOpen
             else None))"

definition Validate :: "Validator \<Rightarrow> Order \<Rightarrow> validate_error option \<times> Order" where
  "Validate v order =
     (case validate v order of
        Some err \<Rightarrow> (Some err, order\<lparr>o_Status := StatusRejected\<rparr>)
      | None \<Rightarrow> (None, order\<lparr>o_Status := StatusValidated\<rparr>))"

section \<open>Example values\<close>

text \<open>Concrete inputs on which the model is run below.\<close>

definition example_domain :: DomainData where
  "example_domain = \<lparr>Name = ''ClobExchange'', Version = ''1'', ChainID = 137, VerifyingContract = 5\<rparr>"

definition example_order :: OrderData where
  "example_order = \<lparr>Salt = 0, Maker = 1, Signer = 1, Taker = 0, TokenID = 12345,
     MakerAmount = 100, TakerAmount = 50, Expiration = 0, Nonce = 1, FeeRateBps = 100,
     Side = 0, SignatureType = 0\<rparr>"

text \<open>A session activated at instant 1000 with a lifetime of 3600 and a limit of 200.\<close>

definition example_session :: SessionManager where
  "example_session =
     snd (Activate example_crypto 1000 (NewSessionManager 3600) (replicate 32 1) 200)"

definition example_pb_domain :: EIP712Domain where
  "example_pb_domain =
     \<lparr>pb_Name = ''ClobExchange'', pb_Version = ''1'', pb_ChainId = 137,
      pb_VerifyingContract = ''0x4bFb41d5B3570DeFd03C39a9A4D8dE6Bd8B8982E''\<rparr>"

definition example_pb_order :: PolymarketOrder where
  "example_pb_order =
     \<lparr>pb_Maker = ''0x1234567890abcdef1234567890abcdef12345678'',
      pb_Taker = ''0x0000000000000000000000000000000000000000'',
      pb_TokenId = ''12345'',
      pb_ConditionId = ''0xabcdef'',
      pb_Side = ORDER_SIDE_BUY,
      pb_MakerAmount = ''100000000'',
      pb_TakerAmount = ''50000000'',
      pb_Expiration = 1700000000,
      pb_Nonce = 1,
      pb_FeeRateBps = 100,
      pb_SignatureType = SIGNATURE_TYPE_EOA\<rparr>"

text \<open>
  The breaker of the tests: stale threshold 1 s, cool-off 2 s; a clock that starts at
  \<open>example_T0\<close>; one transport, healthy, watched for Kalshi.
\<close>

definition example_breaker_cfg :: CircuitBreakerConfig where
  "example_breaker_cfg =
     \<lparr>StaleThreshold = 1000 * Millisecond, CoolOff = 2 * Second, PollInterval = 50 * Millisecond\<rparr>"

definition example_update :: BookUpdate where
  "example_update =
     \<lparr>Exchange = ExchangeKalshi, MarketID = ''FED-DEC'', AssetID = [], Bids = [], Asks = [],
      Timestamp = 0, Hash = []\<rparr>"

definition example_T0 :: instant where
  "example_T0 = 1000000000000000000"

definition example_store :: "ws_ref \<Rightarrow> WSClient" where
  "example_store r = NewWSClient"

text \<open>First update at \<open>example_T0\<close>; the next one five seconds later.\<close>

definition breaker_after_first :: CircuitBreaker where
  "breaker_after_first =
     recordUpdate (WatchConnection (NewCircuitBreaker example_breaker_cfg) ExchangeKalshi 0)
       example_T0 example_update"

definition breaker_after_second :: CircuitBreaker where
  "breaker_after_second =
     recordUpdate breaker_after_first (example_T0 + 5 * Second) example_update"

text \<open>
  The Kalshi scenario: a snapshot with 300 at 48 cents on the yes side and 200 at 54 cents
  on the no side, then a delta of -100 at 48 cents on the yes side. The second adapter
  holds the same book while its \<open>updates\<close> channel is full.
\<close>

definition example_snapshot :: rawSnapshot where
  "example_snapshot =
     \<lparr>s_MarketTicker = ''FED-DEC'', s_MarketID = ''mkt-1'', s_Yes = [(48, 300)], s_No = [(54, 200)]\<rparr>"

definition example_delta :: rawDelta where
  "example_delta =
     \<lparr>d_MarketTicker = ''FED-DEC'', d_MarketID = ''mkt-1'', d_Price = 48, d_Delta = - 100,
      d_Side = ''yes'', d_Ts = []\<rparr>"

definition example_book :: orderBook where
  "example_book =
     \<lparr>ob_MarketTicker = ''FED-DEC'', ob_MarketID = ''mkt-1'', Yes = [(48, 300)], No = [(54, 200)]\<rparr>"

definition kalshi_after_snapshot :: KalshiAdapter where
  "kalshi_after_snapshot =
     handleSnapshot rev 10 (fst (kalshi_New NewWSClient)) (Some example_snapshot)"

definition kalshi_full :: KalshiAdapter where
  "kalshi_full =
     \<lparr>raw = 0, updates = replicate 1024 example_update,
      books = [''FED-DEC'' \<mapsto> example_book], cmdID = 0\<rparr>"




text \<open>The order of the validator tests, and a gate that lets everything through.\<close>

definition validOrder :: Order where
  "validOrder =
     \<lparr>OrderID = [], UserID = ''user-1'', o_Exchange = ExchangePolymarket, o_MarketID = ''BTC-100K'',
      o_AssetID = ''token-abc'', o_Side = Buy, o_Type = Limit, o_Price = Fin (55 / 100),
      Quantity = Fin 10,
      o_Status = StatusNew, CreatedAt = 0\<rparr>"

definition open_gate :: "Exchange \<Rightarrow> string \<Rightarrow> bool" where
  "open_gate exchange marketID = True"

text \<open>A frame that arrives after \<open>Connect\<close>.\<close>

definition example_frame :: bytes where
  "example_frame = [123, 125]"

text \<open>
  A reading of decimal strings for the examples, as \<open>big.Int.SetString\<close> with base 10
  reads them: an optional sign, then one or more digits. \<open>example_crypto_dec\<close> is the
  example instance with this parser.
\<close>

definition digit_of :: "char \<Rightarrow> nat option" where
  "digit_of = map_of (zip ''0123456789'' [0, 1, 2, 3, 4, 5, 6, 7, 8, 9])"

fun dec_value :: "nat \<Rightarrow> string \<Rightarrow> nat option" where
  "dec_value acc [] = Some acc"
| "dec_value acc (c # cs) =
     (case digit_of c of None \<Rightarrow> None | Some d \<Rightarrow> dec_value (10 * acc + d) cs)"

definition decimal_SetString :: "string \<Rightarrow> int \<times> bool" where
  "decimal_SetString s =
     (let neg = (s \<noteq> [] \<and> hd s = CHR ''-'');
          body = (if s \<noteq> [] \<and> (hd s = CHR ''-'' \<or> hd s = CHR ''+'') then tl s else s)
      in if body = [] then (0, False)
         else (case dec_value 0 body of
                 None \<Rightarrow> (0, False)
               | Some n \<Rightarrow> (if neg then - int n else int n, True)))"

definition example_crypto_dec :: "bytes crypto" where
  "example_crypto_dec = example_crypto\<lparr>SetString10 := decimal_SetString\<rparr>"

text \<open>
  Two requests against the example session (limit 200): the first with the maker amount
  "-100", the second with "300".
\<close>

definition request_minus_100 :: SignOrderRequest where
  "request_minus_100 =
     \<lparr>req_Order = Some (example_pb_order\<lparr>pb_MakerAmount := ''-100''\<rparr>),
      req_Domain = Some example_pb_domain\<rparr>"

definition request_300 :: SignOrderRequest where
  "request_300 =
     \<lparr>req_Order = Some (example_pb_order\<lparr>pb_MakerAmount := ''300''\<rparr>),
      req_Domain = Some example_pb_domain\<rparr>"

section \<open>Properties of the signer\<close>

subsection \<open>What one call of \<open>Sign\<close> does to the session\<close>

lemma example_session_eq:
  "example_session = \<lparr>enclave = Some (replicate 32 1), address = ''0xA'', expiresAt = 4600,
     maxValueLimit = Some 200, valueUsed = 0, ttl = 3600\<rparr>"
  by (simp add: example_session_def Activate_def example_crypto_def NewSessionManager_def)

lemma Sign_Inr:
  assumes "Sign env now sm v d od = (Inr sig, sm')"
  shows "sm' = sm\<lparr>valueUsed := valueUsed sm + v\<rparr>"
    and "enclave sm \<noteq> None" and "\<not> isExpired now sm"
    and "\<exists>limit. maxValueLimit sm = Some limit \<and> valueUsed sm + v \<le> limit"
  using assms
  by (auto simp: Sign_def Let_def split: option.splits if_splits)

lemma Sign_Inl:
  assumes "Sign env now sm v d od = (Inl e, sm')"
  shows "if e = ErrSessionExpired then sm' = destroyLocked sm else sm' = sm"
  using assms
  by (auto simp: Sign_def Let_def split: option.splits if_splits)

lemma Sign_no_session:
  "enclave sm = None \<Longrightarrow> Sign env now sm v d od = (Inl ErrNoActiveSession, sm)"
  by (simp add: Sign_def)

lemma Sign_signed:
  assumes "Sign env now sm v d od = (Inr sig, sm')"
  shows "\<exists>sealed buf k rs.
           enclave sm = Some sealed \<and> EnclaveOpen env sealed = Some buf \<and> ToECDSA env buf = Some k
         \<and> EcdsaSign env (eip712Digest env (hashDomain env d) (hashOrder env od)) k = Some rs
         \<and> 64 < length rs \<and> sig = rs[64 := rs ! 64 + 27]"
  using assms
  by (auto simp: Sign_def Let_def split: option.splits if_splits)

lemma Activate_ok:
  assumes "Activate env t0 sm0 keyBytes limit = (Inr (), sm)"
  shows "enclave sm = Some keyBytes" "maxValueLimit sm = Some limit" "valueUsed sm = 0"
    "expiresAt sm = t0 + ttl sm0"
  using assms by (auto simp: Activate_def split: option.splits)

lemma LeftPadBytes_short:
  "length b \<le> l \<Longrightarrow> LeftPadBytes b l = replicate (l - length b) 0 @ b"
  by (cases "length b = l") (simp_all add: LeftPadBytes_def)

lemma big_Bytes_zero: "big_Bytes 0 = []"
  by (simp add: big_Bytes_def nat_be_bytes.simps)

subsection \<open>The cumulative limit\<close>

text \<open>Without a session every call is refused, so nothing is approved.\<close>

lemma approved_no_session:
  "enclave sm = None \<Longrightarrow> approved_notional env sm cs = 0"
  by (induction cs) (simp_all add: Sign_no_session)

text \<open>
  What the limit check does keep: while a session lives, \<open>valueUsed\<close> plus the order
  values of the calls approved from then on, added with their signs, stays within the
  limit.
\<close>

lemma approved_bound:
  "enclave sm \<noteq> None \<Longrightarrow> maxValueLimit sm = Some limit \<Longrightarrow> valueUsed sm \<le> limit
     \<Longrightarrow> valueUsed sm + approved_notional env sm cs \<le> limit"
proof (induction cs arbitrary: sm)
  case Nil
  then show ?case by simp
next
  case (Cons c cs)
  obtain r sm' where step: "Sign env (c_now c) sm (c_value c) (c_domain c) (c_order c) = (r, sm')"
    by (cases "Sign env (c_now c) sm (c_value c) (c_domain c) (c_order c)")
  show ?case
  proof (cases r)
    case (Inl e)
    show ?thesis
    proof (cases "e = ErrSessionExpired")
      case True
      with Sign_Inl [OF step [unfolded Inl]] have "sm' = destroyLocked sm" by simp
      then have "enclave sm' = None" by (simp add: destroyLocked_def)
      then have "approved_notional env sm' cs = 0" by (rule approved_no_session)
      with Cons.prems step Inl show ?thesis by simp
    next
      case False
      with Sign_Inl [OF step [unfolded Inl]] have "sm' = sm" by simp
      with Cons step Inl show ?thesis by simp
    qed
  next
    case (Inr sig)
    note ok = step [unfolded Inr]
    from Sign_Inr(1) [OF ok] have sm': "sm' = sm\<lparr>valueUsed := valueUsed sm + c_value c\<rparr>" .
    from Sign_Inr(4) [OF ok] Cons.prems(2) have le: "valueUsed sm + c_value c \<le> limit" by simp
    have "valueUsed sm' + approved_notional env sm' cs \<le> limit"
      using Cons.prems le by (intro Cons.IH) (simp_all add: sm')
    with step Inr sm' show ?thesis by simp
  qed
qed

text \<open>
  C1 (the code departs from the claim). The limit check adds the parsed maker amount to
  \<open>valueUsed\<close> and compares the sum with the limit; nothing rejects a negative amount.
  Against the example session (limit 200), a request with the maker amount "-100" is
  signed and brings \<open>valueUsed\<close> to -100, while the order that is hashed carries the
  amount 100, the absolute value. A second request with the amount 300 is then signed as
  well, since -100 + 300 does not exceed 200. The two signed orders carry maker amounts of
  100 and 300, together 400, twice the limit.
\<close>

theorem negative_maker_amount_evades_limit:
  "maxValueLimit example_session = Some 200
   \<and> SetString10 example_crypto_dec ''-100'' = (- 100, True)
   \<and> SignOrder example_crypto_dec 2000 2000 2000 example_session request_minus_100
       = (Inr \<lparr>Signature = ''0x'' @ hex_EncodeToString (replicate 64 7 @ [28]),
               SignerAddress = ''0xA'', SignedAt = UnixNano 2000\<rparr>,
          example_session\<lparr>valueUsed := - 100\<rparr>)
   \<and> LeftPadBytes (big_Bytes (MakerAmount (SignOrder_order example_crypto_dec
          (example_pb_order\<lparr>pb_MakerAmount := ''-100''\<rparr>)))) 32
       = LeftPadBytes (big_Bytes 100) 32
   \<and> SignOrder example_crypto_dec 2001 2001 2001 (example_session\<lparr>valueUsed := - 100\<rparr>)
        request_300
       = (Inr \<lparr>Signature = ''0x'' @ hex_EncodeToString (replicate 64 7 @ [28]),
               SignerAddress = ''0xA'', SignedAt = UnixNano 2001\<rparr>,
          example_session\<lparr>valueUsed := 200\<rparr>)
   \<and> MakerAmount (SignOrder_order example_crypto_dec
          (example_pb_order\<lparr>pb_MakerAmount := ''300''\<rparr>)) = 300
   \<and> (200 :: int) < 100 + 300"
proof -
  have env: "SetString10 example_crypto_dec = decimal_SetString"
    "EnclaveOpen example_crypto_dec = (\<lambda>b. Some b)"
    "ToECDSA example_crypto_dec = (\<lambda>b. if length b = 32 then Some b else None)"
    "EcdsaSign example_crypto_dec = (\<lambda>d k. Some (replicate 64 7 @ [1]))"
    by (simp_all add: example_crypto_dec_def example_crypto_def)
  have minus: "decimal_SetString ''-100'' = (- 100, True)"
    by (simp add: decimal_SetString_def digit_of_def)
  have plus: "decimal_SetString ''300'' = (300, True)"
    by (simp add: decimal_SetString_def digit_of_def)
  have limit: "maxValueLimit example_session = Some 200"
    by (simp add: example_session_eq)
  have first: "SignOrder example_crypto_dec 2000 2000 2000 example_session request_minus_100
       = (Inr \<lparr>Signature = ''0x'' @ hex_EncodeToString (replicate 64 7 @ [28]),
               SignerAddress = ''0xA'', SignedAt = UnixNano 2000\<rparr>,
          example_session\<lparr>valueUsed := - 100\<rparr>)"
    by (simp add: SignOrder_def request_minus_100_def env minus Sign_def example_session_eq
          isExpired_def Status_def Let_def list_update_append nth_append)
  have hashed: "LeftPadBytes (big_Bytes (MakerAmount (SignOrder_order example_crypto_dec
          (example_pb_order\<lparr>pb_MakerAmount := ''-100''\<rparr>)))) 32
       = LeftPadBytes (big_Bytes 100) 32"
    by (simp add: SignOrder_order_def env minus big_Bytes_def)
  have second: "SignOrder example_crypto_dec 2001 2001 2001
        (example_session\<lparr>valueUsed := - 100\<rparr>) request_300
       = (Inr \<lparr>Signature = ''0x'' @ hex_EncodeToString (replicate 64 7 @ [28]),
               SignerAddress = ''0xA'', SignedAt = UnixNano 2001\<rparr>,
          example_session\<lparr>valueUsed := 200\<rparr>)"
    by (simp add: SignOrder_def request_300_def env plus Sign_def example_session_eq
          isExpired_def Status_def Let_def list_update_append nth_append)
  have amount: "MakerAmount (SignOrder_order example_crypto_dec
          (example_pb_order\<lparr>pb_MakerAmount := ''300''\<rparr>)) = 300"
    by (simp add: SignOrder_order_def env plus)
  from limit minus first hashed second amount show ?thesis
    by (simp add: env)
qed

subsection \<open>The signature\<close>












subsection \<open>Expiry\<close>

text \<open>
  C5 (amended). At every instant strictly after \<open>expiresAt\<close>, the status of a session
  reports \<open>active = false\<close>, zero for the remaining time, "0" for the limit and for the
  used value, and an empty address; the first \<open>Sign\<close> call fails with
  \<open>ErrSessionExpired\<close> and destroys the session, and from then on every \<open>Sign\<close> call
  fails with \<open>ErrNoActiveSession\<close> while the status stays inactive. (At the instant
  \<open>expiresAt\<close> itself the session is still active.)
\<close>

theorem expired_session_refuses:
  assumes live: "enclave sm = Some sealed" and late: "expiresAt sm < now"
  shows "Status now sm = \<lparr>active = False, ttlRemaining = 0, maxLimit = ''0'', used = ''0'', st_address = []\<rparr>
    \<and> Sign env now sm v d od = (Inl ErrSessionExpired, destroyLocked sm)
    \<and> enclave (destroyLocked sm) = None
    \<and> Sign env now' (destroyLocked sm) v' d' od' = (Inl ErrNoActiveSession, destroyLocked sm)
    \<and> Status now' (destroyLocked sm) = \<lparr>active = False, ttlRemaining = 0, maxLimit = ''0'', used = ''0'', st_address = []\<rparr>"
proof -
  have gone: "enclave (destroyLocked sm) = None"
    by (simp add: destroyLocked_def)
  have st: "Status now sm = \<lparr>active = False, ttlRemaining = 0, maxLimit = ''0'', used = ''0'', st_address = []\<rparr>"
    using live late by (simp add: Status_def isExpired_def)
  have sg: "Sign env now sm v d od = (Inl ErrSessionExpired, destroyLocked sm)"
    using live late by (simp add: Sign_def isExpired_def)
  have st': "Status now' (destroyLocked sm) = \<lparr>active = False, ttlRemaining = 0, maxLimit = ''0'', used = ''0'', st_address = []\<rparr>"
    using gone by (simp add: Status_def)
  from gone st sg st' Sign_no_session [OF gone] show ?thesis by simp
qed

theorem expired_session_refuses_witness:
  "enclave example_session = Some (replicate 32 1) \<and> expiresAt example_session < 4601
   \<and> active (Status 4601 example_session) = False
   \<and> Sign example_crypto 4601 example_session 1 example_domain example_order
        = (Inl ErrSessionExpired, destroyLocked example_session)"
proof -
  have a: "enclave example_session = Some (replicate 32 1)" by (simp add: example_session_eq)
  have b: "expiresAt example_session < 4601" by (simp add: example_session_eq)
  from expired_session_refuses [OF a b, of example_crypto 1 example_domain example_order]
  show ?thesis using a b by simp
qed

text \<open>
  The claim as first stated includes the instant \<open>now = expiresAt\<close> and has every call
  fail with \<open>ErrSessionExpired\<close>. The example session expires at 4600: at 4600 its status
  is active and a \<open>Sign\<close> call returns a signature; and of two calls made at 4601 the
  second fails with \<open>ErrNoActiveSession\<close>.
\<close>

theorem session_at_expiry_instant_counterexample:
  "expiresAt example_session = 4600
   \<and> active (Status 4600 example_session) = True
   \<and> fst (Sign example_crypto 4600 example_session 1 example_domain example_order)
        = Inr (replicate 64 7 @ [28])
   \<and> fst (Sign example_crypto 4601
             (snd (Sign example_crypto 4601 example_session 1 example_domain example_order))
             1 example_domain example_order) = Inl ErrNoActiveSession"
  by (simp add: example_session_eq Status_def Sign_def isExpired_def destroyLocked_def
        example_crypto_def Let_def list_update_append nth_append)

subsection \<open>Salt and signer of a signed request\<close>

lemma SignOrder_signed:
  assumes "SignOrder env t1 t2 t3 sm \<lparr>req_Order = Some po, req_Domain = Some pd\<rparr> = (Inr resp, sm')"
  shows "\<exists>sealed buf k rs.
           enclave sm = Some sealed \<and> EnclaveOpen env sealed = Some buf \<and> ToECDSA env buf = Some k
         \<and> EcdsaSign env (SignOrder_digest env pd po) k = Some rs
         \<and> Signature resp = ''0x'' @ hex_EncodeToString (rs[64 := rs ! 64 + 27])"
proof -
  from assms obtain sig where
    sg: "Sign env t1 sm (fst (SetString10 env (pb_MakerAmount po)))
           (SignOrder_domain env pd) (SignOrder_order env po) = (Inr sig, sm')"
    and resp: "Signature resp = ''0x'' @ hex_EncodeToString sig"
    by (auto simp: SignOrder_def split: if_splits prod.splits sum.splits)
  from Sign_signed [OF sg] resp show ?thesis
    unfolding SignOrder_digest_def by blast
qed

text \<open>
  C10. Whatever the request holds, the order that \<open>SignOrder\<close> hashes has salt zero and
  its signer equal to its maker, the address parsed from the request's maker field: the
  struct hash has 32 zero bytes in the salt position and the padded maker address in
  both the maker and the signer position. Two requests that agree on the ten order
  fields the handler reads and on the four domain fields have the same digest, and a
  request that is answered with a signature was signed over that digest.
\<close>

theorem sign_order_salt_and_signer_fixed:
  assumes order_agree:
      "pb_Maker po = pb_Maker po' \<and> pb_Taker po = pb_Taker po' \<and> pb_TokenId po = pb_TokenId po'
     \<and> pb_Side po = pb_Side po' \<and> pb_MakerAmount po = pb_MakerAmount po'
     \<and> pb_TakerAmount po = pb_TakerAmount po' \<and> pb_Expiration po = pb_Expiration po'
     \<and> pb_Nonce po = pb_Nonce po' \<and> pb_FeeRateBps po = pb_FeeRateBps po'
     \<and> pb_SignatureType po = pb_SignatureType po'"
    and domain_agree:
      "pb_Name pd = pb_Name pd' \<and> pb_Version pd = pb_Version pd' \<and> pb_ChainId pd = pb_ChainId pd'
     \<and> pb_VerifyingContract pd = pb_VerifyingContract pd'"
  shows "Salt (SignOrder_order env po) = 0
    \<and> Maker (SignOrder_order env po) = HexToAddress env (pb_Maker po)
    \<and> Signer (SignOrder_order env po) = Maker (SignOrder_order env po)
    \<and> hashOrder env (SignOrder_order env po) =
        Keccak256 env
          (orderTypeHash env
           @ replicate 32 0
           @ LeftPadBytes (address_Bytes (HexToAddress env (pb_Maker po))) 32
           @ LeftPadBytes (address_Bytes (HexToAddress env (pb_Maker po))) 32
           @ LeftPadBytes (address_Bytes (HexToAddress env (pb_Taker po))) 32
           @ LeftPadBytes (big_Bytes (fst (SetString10 env (pb_TokenId po)))) 32
           @ LeftPadBytes (big_Bytes (fst (SetString10 env (pb_MakerAmount po)))) 32
           @ LeftPadBytes (big_Bytes (fst (SetString10 env (pb_TakerAmount po)))) 32
           @ LeftPadBytes (big_Bytes (uint (pb_Expiration po))) 32
           @ LeftPadBytes (big_Bytes (uint (pb_Nonce po))) 32
           @ LeftPadBytes (big_Bytes (uint (pb_FeeRateBps po))) 32
           @ LeftPadBytes (big_Bytes (uint (protoSideToUint8 (pb_Side po)))) 32
           @ LeftPadBytes (big_Bytes (uint (protoSigTypeToUint8 (pb_SignatureType po)))) 32)
    \<and> SignOrder_digest env pd po = SignOrder_digest env pd' po'
    \<and> (\<forall>t1 t2 t3 sm resp sm'.
          SignOrder env t1 t2 t3 sm \<lparr>req_Order = Some po, req_Domain = Some pd\<rparr> = (Inr resp, sm')
          \<longrightarrow> (\<exists>sealed buf k rs.
                 enclave sm = Some sealed \<and> EnclaveOpen env sealed = Some buf
               \<and> ToECDSA env buf = Some k
               \<and> EcdsaSign env (SignOrder_digest env pd po) k = Some rs
               \<and> Signature resp = ''0x'' @ hex_EncodeToString (rs[64 := rs ! 64 + 27])))"
proof -
  have same_order: "SignOrder_order env po = SignOrder_order env po'"
    using order_agree by (simp add: SignOrder_order_def)
  have same_domain: "SignOrder_domain env pd = SignOrder_domain env pd'"
    using domain_agree by (simp add: SignOrder_domain_def)
  have digest: "SignOrder_digest env pd po = SignOrder_digest env pd' po'"
    by (simp add: SignOrder_digest_def same_order same_domain)
  have fields: "Salt (SignOrder_order env po) = 0"
    "Maker (SignOrder_order env po) = HexToAddress env (pb_Maker po)"
    "Signer (SignOrder_order env po) = Maker (SignOrder_order env po)"
    by (simp_all add: SignOrder_order_def)
  have pad0: "LeftPadBytes (big_Bytes 0) 32 = replicate 32 0"
    by (simp add: big_Bytes_zero LeftPadBytes_def)
  have hash: "hashOrder env (SignOrder_order env po) =
        Keccak256 env
          (orderTypeHash env
           @ replicate 32 0
           @ LeftPadBytes (address_Bytes (HexToAddress env (pb_Maker po))) 32
           @ LeftPadBytes (address_Bytes (HexToAddress env (pb_Maker po))) 32
           @ LeftPadBytes (address_Bytes (HexToAddress env (pb_Taker po))) 32
           @ LeftPadBytes (big_Bytes (fst (SetString10 env (pb_TokenId po)))) 32
           @ LeftPadBytes (big_Bytes (fst (SetString10 env (pb_MakerAmount po)))) 32
           @ LeftPadBytes (big_Bytes (fst (SetString10 env (pb_TakerAmount po)))) 32
           @ LeftPadBytes (big_Bytes (uint (pb_Expiration po))) 32
           @ LeftPadBytes (big_Bytes (uint (pb_Nonce po))) 32
           @ LeftPadBytes (big_Bytes (uint (pb_FeeRateBps po))) 32
           @ LeftPadBytes (big_Bytes (uint (protoSideToUint8 (pb_Side po)))) 32
           @ LeftPadBytes (big_Bytes (uint (protoSigTypeToUint8 (pb_SignatureType po)))) 32)"
    unfolding hashOrder_def SignOrder_order_def by (simp add: pad0)
  from fields hash digest SignOrder_signed show ?thesis
    by (intro conjI allI impI) assumption+
qed

text \<open>Two requests that differ only in the condition id have the same digest.\<close>

theorem sign_order_salt_and_signer_fixed_witness:
  "pb_ConditionId example_pb_order \<noteq> pb_ConditionId (example_pb_order\<lparr>pb_ConditionId := ''0x00''\<rparr>)
   \<and> Salt (SignOrder_order example_crypto example_pb_order) = 0
   \<and> Signer (SignOrder_order example_crypto example_pb_order)
       = Maker (SignOrder_order example_crypto example_pb_order)
   \<and> SignOrder_digest example_crypto example_pb_domain example_pb_order
       = SignOrder_digest example_crypto example_pb_domain
           (example_pb_order\<lparr>pb_ConditionId := ''0x00''\<rparr>)"
proof -
  have diff: "pb_ConditionId example_pb_order
                \<noteq> pb_ConditionId (example_pb_order\<lparr>pb_ConditionId := ''0x00''\<rparr>)"
    by (simp add: example_pb_order_def)
  from sign_order_salt_and_signer_fixed
         [of example_pb_order "example_pb_order\<lparr>pb_ConditionId := ''0x00''\<rparr>"
             example_pb_domain example_pb_domain example_crypto]
  show ?thesis using diff by simp
qed

section \<open>Properties of the circuit breaker\<close>

lemma breaker_after_first_market:
  "markets breaker_after_first (ExchangeKalshi, ''FED-DEC'')
     = Some \<lparr>LastUpdate = example_T0, RecoveredAt = example_T0, Healthy = True\<rparr>"
  by (simp add: breaker_after_first_def recordUpdate_def WatchConnection_def
        NewCircuitBreaker_def example_update_def Let_def)

lemma breaker_after_first_rest:
  "halted breaker_after_first = False"
  "conns breaker_after_first ExchangeKalshi = Some 0"
  "cfg breaker_after_first = example_breaker_cfg"
  by (simp_all add: breaker_after_first_def recordUpdate_def WatchConnection_def
        NewCircuitBreaker_def Let_def)

lemma breaker_after_second_market:
  "markets breaker_after_second (ExchangeKalshi, ''FED-DEC'')
     = Some \<lparr>LastUpdate = example_T0 + 5 * Second, RecoveredAt = example_T0, Healthy = True\<rparr>"
  by (simp add: breaker_after_second_def recordUpdate_def breaker_after_first_market
        example_update_def Let_def)

lemma breaker_after_second_rest:
  "halted breaker_after_second = False"
  "conns breaker_after_second ExchangeKalshi = Some 0"
  "cfg breaker_after_second = example_breaker_cfg"
  by (simp_all add: breaker_after_second_def recordUpdate_def breaker_after_first_rest Let_def)

lemma example_store_closed: "Circuit (example_store r) = CircuitClosed"
  by (simp add: example_store_def Circuit_def NewWSClient_def)

text \<open>
  C4. \<open>CanTrade\<close> is true exactly when (1) no manual halt is active, (2) the transport
  watched for the exchange, if there is one, reports a closed circuit, (3) the market has
  a recorded update and \<open>now\<close> minus its \<open>LastUpdate\<close> is at most the stale threshold,
  and (4) its \<open>RecoveredAt\<close> is unset or \<open>now\<close> minus \<open>RecoveredAt\<close> is at least the
  cool-off. The defaults are 1000 ms and 2 s (in nanoseconds). \<open>ManualHalt\<close> sets the
  halt, \<open>Resume\<close> clears it, and a new breaker is not halted.
\<close>

theorem can_trade_iff_four_conditions:
  "(CanTrade cb store now exchange marketID \<longleftrightarrow>
       \<not> halted cb
     \<and> (\<forall>ws. conns cb exchange = Some ws \<longrightarrow> Circuit (store ws) = CircuitClosed)
     \<and> (\<exists>ms. markets cb (exchange, marketID) = Some ms
          \<and> time_Sub now (LastUpdate ms) \<le> StaleThreshold (cfg cb)
          \<and> (IsZero (RecoveredAt ms) \<or> CoolOff (cfg cb) \<le> time_Sub now (RecoveredAt ms))))
   \<and> StaleThreshold DefaultCircuitBreakerConfig = 1000000000
   \<and> CoolOff DefaultCircuitBreakerConfig = 2000000000
   \<and> halted (ManualHalt cb) \<and> \<not> halted (Resume cb) \<and> \<not> halted (NewCircuitBreaker c)"
proof -
  have iff: "CanTrade cb store now exchange marketID \<longleftrightarrow>
       \<not> halted cb
     \<and> (\<forall>ws. conns cb exchange = Some ws \<longrightarrow> Circuit (store ws) = CircuitClosed)
     \<and> (\<exists>ms. markets cb (exchange, marketID) = Some ms
          \<and> time_Sub now (LastUpdate ms) \<le> StaleThreshold (cfg cb)
          \<and> (IsZero (RecoveredAt ms) \<or> CoolOff (cfg cb) \<le> time_Sub now (RecoveredAt ms)))"
  proof (cases "conns cb exchange")
    case None
    then show ?thesis
      by (auto simp: CanTrade_def split: option.splits)
  next
    case (Some ws)
    then show ?thesis
      by (cases "Circuit (store ws)") (auto simp: CanTrade_def split: option.splits)
  qed
  have defaults: "StaleThreshold DefaultCircuitBreakerConfig = 1000000000"
    "CoolOff DefaultCircuitBreakerConfig = 2000000000"
    by (simp_all add: DefaultCircuitBreakerConfig_def Millisecond_def Second_def)
  have halts: "halted (ManualHalt cb)" "\<not> halted (Resume cb)" "\<not> halted (NewCircuitBreaker c)"
    by (simp_all add: ManualHalt_def Resume_def NewCircuitBreaker_def)
  from iff defaults halts show ?thesis by blast
qed

text \<open>
  Six seconds after the first update and one second after the second, all four
  conditions hold; after \<open>ManualHalt\<close> the first one fails.
\<close>

theorem can_trade_iff_four_conditions_witness:
  "CanTrade breaker_after_second example_store (example_T0 + 6 * Second) ExchangeKalshi ''FED-DEC''
   \<and> \<not> CanTrade (ManualHalt breaker_after_second) example_store (example_T0 + 6 * Second)
         ExchangeKalshi ''FED-DEC''"
proof -
  let ?now = "example_T0 + 6 * Second"
  have c1: "\<not> halted breaker_after_second"
    by (simp add: breaker_after_second_rest)
  have c2: "\<forall>ws. conns breaker_after_second ExchangeKalshi = Some ws
              \<longrightarrow> Circuit (example_store ws) = CircuitClosed"
    by (simp add: example_store_closed)
  have c34: "\<exists>ms. markets breaker_after_second (ExchangeKalshi, ''FED-DEC'') = Some ms
          \<and> time_Sub ?now (LastUpdate ms) \<le> StaleThreshold (cfg breaker_after_second)
          \<and> (IsZero (RecoveredAt ms)
              \<or> CoolOff (cfg breaker_after_second) \<le> time_Sub ?now (RecoveredAt ms))"
    by (simp add: breaker_after_second_market breaker_after_second_rest example_breaker_cfg_def
          time_Sub_def example_T0_def Second_def Millisecond_def)
  note inst = can_trade_iff_four_conditions [of _ _ ?now ExchangeKalshi "''FED-DEC''"]
  from inst [of breaker_after_second example_store] c1 c2 c34
  have yes: "CanTrade breaker_after_second example_store ?now ExchangeKalshi ''FED-DEC''"
    by blast
  from inst [of "ManualHalt breaker_after_second" example_store]
       inst [of breaker_after_second example_store]
  have no: "\<not> CanTrade (ManualHalt breaker_after_second) example_store ?now
               ExchangeKalshi ''FED-DEC''"
    by blast
  from yes no show ?thesis by simp
qed

subsection \<open>Staleness and the cool-off\<close>

lemma time_Sub_mono: "now \<le> now' \<Longrightarrow> time_Sub now t \<le> time_Sub now' t"
  by (auto simp: time_Sub_def Let_def)

lemma stale_blocks:
  assumes "markets cb (v, m) = Some ms"
    and "StaleThreshold (cfg cb) < time_Sub now (LastUpdate ms)"
  shows "\<not> CanTrade cb store now v m"
  using assms by (simp add: CanTrade_def)

text \<open>
  Only an update for the market itself moves its \<open>LastUpdate\<close>; no event changes the
  configuration.
\<close>

lemma apply_event_keeps:
  assumes "\<not> updates_market v m e"
  shows "cfg (apply_event cb e) = cfg cb
       \<and> map_option LastUpdate (markets (apply_event cb e) (v, m))
           = map_option LastUpdate (markets cb (v, m))"
proof (cases e)
  case (EvUpdate t u)
  with assms have "(Exchange u, MarketID u) \<noteq> (v, m)" by auto
  with EvUpdate show ?thesis by (auto simp: recordUpdate_def Let_def)
next
  case (EvMarkStale ex mk)
  then show ?thesis
    by (auto simp: MarkStale_def split: option.splits)
next
  case EvManualHalt
  then show ?thesis by (simp add: ManualHalt_def)
next
  case EvResume
  then show ?thesis by (simp add: Resume_def)
next
  case (EvWatchConnection ex ws)
  then show ?thesis by (simp add: WatchConnection_def)
qed

lemma apply_events_keep:
  assumes "\<forall>e\<in>set evs. \<not> updates_market v m e"
  shows "cfg (apply_events cb evs) = cfg cb
       \<and> map_option LastUpdate (markets (apply_events cb evs) (v, m))
           = map_option LastUpdate (markets cb (v, m))"
  using assms
proof (induction evs arbitrary: cb)
  case Nil
  then show ?case by simp
next
  case (Cons e evs)
  then have "\<not> updates_market v m e" and rest: "\<forall>e\<in>set evs. \<not> updates_market v m e"
    by simp_all
  from apply_event_keeps [OF this(1), of cb] Cons.IH [OF rest, of "apply_event cb e"]
  show ?case by simp
qed

lemma stale_without_update:
  assumes entry: "markets cb (v, m) = Some ms"
    and stale: "StaleThreshold (cfg cb) < time_Sub now (LastUpdate ms)"
    and later: "now \<le> now'"
    and quiet: "\<forall>e\<in>set evs. \<not> updates_market v m e"
  shows "\<not> CanTrade (apply_events cb evs) store now' v m"
proof -
  from apply_events_keep [OF quiet, of cb] entry obtain ms' where
    entry': "markets (apply_events cb evs) (v, m) = Some ms'"
    and same: "LastUpdate ms' = LastUpdate ms"
    and conf: "cfg (apply_events cb evs) = cfg cb"
    by auto
  from stale time_Sub_mono [OF later, of "LastUpdate ms"]
  have "StaleThreshold (cfg cb) < time_Sub now' (LastUpdate ms)" by simp
  with same conf have "StaleThreshold (cfg (apply_events cb evs)) < time_Sub now' (LastUpdate ms')"
    by simp
  with entry' show ?thesis by (rule stale_blocks)
qed

lemma recovery_starts_cool_off:
  assumes entry: "markets cb (Exchange u, MarketID u) = Some ms"
    and flagged: "\<not> Healthy ms"
    and clock: "t \<noteq> 0"
    and early: "time_Sub now t < CoolOff (cfg cb)"
  shows "\<not> CanTrade (recordUpdate cb t u) store now (Exchange u) (MarketID u)"
  using assms by (simp add: CanTrade_def recordUpdate_def IsZero_def Let_def)

lemma healthy_update_keeps_recovery:
  assumes entry: "markets cb (Exchange u, MarketID u) = Some ms"
    and healthy: "Healthy ms"
  shows "recordUpdate cb t u = cb\<lparr>markets := (markets cb)((Exchange u, MarketID u) \<mapsto> ms\<lparr>LastUpdate := t\<rparr>)\<rparr>"
proof -
  from healthy have eq: "ms\<lparr>LastUpdate := t, Healthy := True\<rparr> = ms\<lparr>LastUpdate := t\<rparr>"
    by (cases ms) simp
  have "recordUpdate cb t u =
          cb\<lparr>markets := (markets cb)((Exchange u, MarketID u) \<mapsto> ms\<lparr>LastUpdate := t, Healthy := True\<rparr>)\<rparr>"
    using entry healthy by (simp add: recordUpdate_def Let_def)
  then show ?thesis by (simp only: eq)
qed

lemma CanTrade_unfold:
  "CanTrade cb store now exchange marketID \<longleftrightarrow>
       \<not> halted cb
     \<and> (\<forall>ws. conns cb exchange = Some ws \<longrightarrow> Circuit (store ws) = CircuitClosed)
     \<and> (\<exists>ms. markets cb (exchange, marketID) = Some ms
          \<and> time_Sub now (LastUpdate ms) \<le> StaleThreshold (cfg cb)
          \<and> (IsZero (RecoveredAt ms) \<or> CoolOff (cfg cb) \<le> time_Sub now (RecoveredAt ms)))"
proof (cases "conns cb exchange")
  case None
  then show ?thesis
    by (auto simp: CanTrade_def split: option.splits)
next
  case (Some ws)
  then show ?thesis
    by (cases "Circuit (store ws)") (auto simp: CanTrade_def split: option.splits)
qed

text \<open>
  C3 (amended). For every venue and market with a recorded update: if \<open>CanTrade\<close> is
  false because the last update is older than the stale threshold, it stays false, at
  every later instant and whatever else is called, until an update for that venue and
  market arrives. The cool-off starts only when an update finds the market flagged
  unhealthy, which is the state \<open>MarkStale\<close> leaves: then \<open>RecoveredAt\<close> is the instant of
  that update (a clock reading other than the zero instant) and \<open>CanTrade\<close> is false as
  long as less than the cool-off has passed since. An update that finds the market flagged
  healthy, as after staleness by age alone, only moves \<open>LastUpdate\<close>: \<open>CanTrade\<close> is then
  true as soon as there is no halt, the circuit is closed, the update is fresh and any
  earlier cool-off has elapsed.
\<close>

theorem stale_until_update_cool_off_after_mark_stale:
  assumes entry: "markets cb (v, m) = Some ms"
  shows "(StaleThreshold (cfg cb) < time_Sub now (LastUpdate ms) \<and> now \<le> now'
            \<and> (\<forall>e\<in>set evs. \<not> updates_market v m e)
          \<longrightarrow> \<not> CanTrade cb store now v m \<and> \<not> CanTrade (apply_events cb evs) store' now' v m)
    \<and> (\<not> Healthy ms \<and> Exchange u = v \<and> MarketID u = m \<and> t \<noteq> 0
            \<and> time_Sub now' t < CoolOff (cfg cb)
          \<longrightarrow> markets (recordUpdate cb t u) (v, m)
                = Some \<lparr>LastUpdate = t, RecoveredAt = t, Healthy = True\<rparr>
              \<and> \<not> CanTrade (recordUpdate cb t u) store now' v m)
    \<and> (Healthy ms \<and> Exchange u = v \<and> MarketID u = m
          \<longrightarrow> markets (recordUpdate cb t u) (v, m) = Some (ms\<lparr>LastUpdate := t\<rparr>)
              \<and> (CanTrade (recordUpdate cb t u) store now' v m \<longleftrightarrow>
                    \<not> halted cb
                  \<and> (\<forall>ws. conns cb v = Some ws \<longrightarrow> Circuit (store ws) = CircuitClosed)
                  \<and> time_Sub now' t \<le> StaleThreshold (cfg cb)
                  \<and> (IsZero (RecoveredAt ms)
                      \<or> CoolOff (cfg cb) \<le> time_Sub now' (RecoveredAt ms))))"
proof (intro conjI impI)
  assume h: "StaleThreshold (cfg cb) < time_Sub now (LastUpdate ms) \<and> now \<le> now'
            \<and> (\<forall>e\<in>set evs. \<not> updates_market v m e)"
  from h entry show "\<not> CanTrade cb store now v m"
    by (intro stale_blocks [where ms = ms]) simp_all
  from h entry show "\<not> CanTrade (apply_events cb evs) store' now' v m"
    by (intro stale_without_update [where ms = ms and now = now]) simp_all
next
  assume h: "\<not> Healthy ms \<and> Exchange u = v \<and> MarketID u = m \<and> t \<noteq> 0
            \<and> time_Sub now' t < CoolOff (cfg cb)"
  with entry have e: "markets cb (Exchange u, MarketID u) = Some ms" by simp
  from e h show "markets (recordUpdate cb t u) (v, m)
                   = Some \<lparr>LastUpdate = t, RecoveredAt = t, Healthy = True\<rparr>"
    by (auto simp: recordUpdate_def Let_def)
  from recovery_starts_cool_off [OF e, of t now' store] h
  show "\<not> CanTrade (recordUpdate cb t u) store now' v m" by simp
next
  assume h: "Healthy ms \<and> Exchange u = v \<and> MarketID u = m"
  with entry have e: "markets cb (Exchange u, MarketID u) = Some ms" by simp
  from h have hl: "Healthy ms" by simp
  note upd = healthy_update_keeps_recovery [OF e hl, of t]
  from h show after: "markets (recordUpdate cb t u) (v, m) = Some (ms\<lparr>LastUpdate := t\<rparr>)"
    by (auto simp: upd)
  show "CanTrade (recordUpdate cb t u) store now' v m \<longleftrightarrow>
                    \<not> halted cb
                  \<and> (\<forall>ws. conns cb v = Some ws \<longrightarrow> Circuit (store ws) = CircuitClosed)
                  \<and> time_Sub now' t \<le> StaleThreshold (cfg cb)
                  \<and> (IsZero (RecoveredAt ms)
                      \<or> CoolOff (cfg cb) \<le> time_Sub now' (RecoveredAt ms))"
    unfolding CanTrade_unfold [of "recordUpdate cb t u"] after
    by (simp add: upd)
qed

text \<open>
  On the example breaker, six seconds after the only update: halting and resuming do not
  make the stale market tradable; one fresh update does, at once; and after \<open>MarkStale\<close>
  the same update is followed by the cool-off.
\<close>

theorem stale_until_update_cool_off_after_mark_stale_witness:
  "\<not> CanTrade (apply_events breaker_after_first [EvManualHalt, EvResume]) example_store
        (example_T0 + 6 * Second) ExchangeKalshi ''FED-DEC''
   \<and> CanTrade (recordUpdate breaker_after_first (example_T0 + 6 * Second) example_update)
        example_store (example_T0 + 6 * Second) ExchangeKalshi ''FED-DEC''
   \<and> \<not> CanTrade (recordUpdate (MarkStale breaker_after_first ExchangeKalshi ''FED-DEC'')
                   (example_T0 + 6 * Second) example_update)
        example_store (example_T0 + 7 * Second) ExchangeKalshi ''FED-DEC''"
proof -
  let ?ms = "\<lparr>LastUpdate = example_T0, RecoveredAt = example_T0, Healthy = True\<rparr>"
  let ?t5 = "example_T0 + 5 * Second"
  let ?t6 = "example_T0 + 6 * Second"
  let ?t7 = "example_T0 + 7 * Second"
  have entry: "markets breaker_after_first (ExchangeKalshi, ''FED-DEC'') = Some ?ms"
    by (rule breaker_after_first_market)
  have key: "Exchange example_update = ExchangeKalshi" "MarketID example_update = ''FED-DEC''"
    by (simp_all add: example_update_def)
  have stale: "StaleThreshold (cfg breaker_after_first) < time_Sub ?t5 (LastUpdate ?ms)"
    by (simp add: breaker_after_first_rest example_breaker_cfg_def time_Sub_def
          example_T0_def Second_def Millisecond_def)
  have later: "?t5 \<le> ?t6" by (simp add: Second_def)
  have quiet: "\<forall>e\<in>set [EvManualHalt, EvResume]. \<not> updates_market ExchangeKalshi ''FED-DEC'' e"
    by simp
  from stale_until_update_cool_off_after_mark_stale
         [OF entry, where now = ?t5 and now' = ?t6 and evs = "[EvManualHalt, EvResume]"
            and store' = example_store]
       stale later quiet
  have a: "\<not> CanTrade (apply_events breaker_after_first [EvManualHalt, EvResume]) example_store
             ?t6 ExchangeKalshi ''FED-DEC''"
    by blast
  have conds: "\<not> halted breaker_after_first
     \<and> (\<forall>ws. conns breaker_after_first ExchangeKalshi = Some ws
            \<longrightarrow> Circuit (example_store ws) = CircuitClosed)
     \<and> time_Sub ?t6 ?t6 \<le> StaleThreshold (cfg breaker_after_first)
     \<and> (IsZero (RecoveredAt ?ms)
         \<or> CoolOff (cfg breaker_after_first) \<le> time_Sub ?t6 (RecoveredAt ?ms))"
    by (simp add: breaker_after_first_rest example_store_closed example_breaker_cfg_def
          time_Sub_def example_T0_def Second_def Millisecond_def)
  have healthy: "Healthy ?ms" by simp
  from stale_until_update_cool_off_after_mark_stale
         [OF entry, where u = example_update and t = ?t6 and now' = ?t6 and store = example_store]
       healthy key conds
  have b: "CanTrade (recordUpdate breaker_after_first ?t6 example_update) example_store
             ?t6 ExchangeKalshi ''FED-DEC''"
    by blast
  let ?cb = "MarkStale breaker_after_first ExchangeKalshi ''FED-DEC''"
  have entry': "markets ?cb (ExchangeKalshi, ''FED-DEC'') = Some (?ms\<lparr>Healthy := False\<rparr>)"
    by (simp add: MarkStale_def entry)
  have flagged: "\<not> Healthy (?ms\<lparr>Healthy := False\<rparr>)" by simp
  have clock: "?t6 \<noteq> 0" by (simp add: example_T0_def Second_def)
  have early: "time_Sub ?t7 ?t6 < CoolOff (cfg ?cb)"
    by (simp add: MarkStale_def entry breaker_after_first_rest example_breaker_cfg_def
          time_Sub_def example_T0_def Second_def)
  from stale_until_update_cool_off_after_mark_stale
         [OF entry', where u = example_update and t = ?t6 and now' = ?t7 and store = example_store]
       flagged key clock early
  have c: "\<not> CanTrade (recordUpdate ?cb ?t6 example_update) example_store
             ?t7 ExchangeKalshi ''FED-DEC''"
    by blast
  from a b c show ?thesis by blast
qed

text \<open>
  The claim as first stated has a single fresh update after a staleness-caused false
  followed by the cool-off. The market gets its first update at \<open>example_T0\<close>. Five
  seconds later \<open>CanTrade\<close> is false, and staleness is the only reason: the cool-off after
  the first update has long elapsed. One fresh update arrives at that instant. It leaves
  \<open>RecoveredAt\<close> where it was, because \<open>recordUpdate\<close> looks at the flag \<open>Healthy\<close>,
  which only \<open>MarkStale\<close> clears; so \<open>CanTrade\<close> is true at once, at the very instant
  of the update. The same update after \<open>MarkStale\<close> does start the cool-off.
\<close>

theorem stale_recovery_skips_cool_off:
  "CanTrade breaker_after_first example_store (example_T0 + 5 * Second) ExchangeKalshi ''FED-DEC'' = False
   \<and> StaleThreshold (cfg breaker_after_first)
       < time_Sub (example_T0 + 5 * Second) example_T0
   \<and> CoolOff (cfg breaker_after_first) \<le> time_Sub (example_T0 + 5 * Second) example_T0
   \<and> breaker_after_second = recordUpdate breaker_after_first (example_T0 + 5 * Second) example_update
   \<and> CanTrade breaker_after_second example_store (example_T0 + 5 * Second) ExchangeKalshi ''FED-DEC'' = True
   \<and> CanTrade (recordUpdate (MarkStale breaker_after_first ExchangeKalshi ''FED-DEC'')
                  (example_T0 + 5 * Second) example_update)
        example_store (example_T0 + 5 * Second) ExchangeKalshi ''FED-DEC'' = False"
proof -
  let ?t = "example_T0 + 5 * Second"
  have before: "CanTrade breaker_after_first example_store ?t ExchangeKalshi ''FED-DEC'' = False"
    by (simp add: CanTrade_def breaker_after_first_rest breaker_after_first_market
          example_store_closed time_Sub_def example_breaker_cfg_def example_T0_def
          Second_def Millisecond_def)
  have stale: "StaleThreshold (cfg breaker_after_first) < time_Sub ?t example_T0"
    and cool: "CoolOff (cfg breaker_after_first) \<le> time_Sub ?t example_T0"
    by (simp_all add: breaker_after_first_rest example_breaker_cfg_def time_Sub_def
          example_T0_def Second_def Millisecond_def)
  have after: "CanTrade breaker_after_second example_store ?t ExchangeKalshi ''FED-DEC'' = True"
    by (simp add: CanTrade_def breaker_after_second_rest breaker_after_second_market
          example_store_closed time_Sub_def example_breaker_cfg_def example_T0_def
          Second_def Millisecond_def IsZero_def)
  have marked: "CanTrade (recordUpdate (MarkStale breaker_after_first ExchangeKalshi ''FED-DEC'')
                  ?t example_update) example_store ?t ExchangeKalshi ''FED-DEC'' = False"
    by (simp add: CanTrade_def recordUpdate_def MarkStale_def breaker_after_first_rest
          breaker_after_first_market example_update_def example_store_closed time_Sub_def
          example_breaker_cfg_def example_T0_def Second_def Millisecond_def IsZero_def Let_def)
  from before stale cool after marked show ?thesis
    by (simp add: breaker_after_second_def)
qed

section \<open>Properties of the Kalshi decoder\<close>

lemma apply_delta_map_of:
  "map_of (apply_delta m p d) =
     (if sint (map_get m p + d) \<le> 0 then (map_of m)(p := None)
      else (map_of m)(p \<mapsto> map_get m p + d))"
  by (simp add: apply_delta_def map_set_def map_delete_def Let_def update_conv' delete_conv')

text \<open>One entry for each price is kept by a delta.\<close>

lemma apply_delta_distinct:
  "distinct (map fst m) \<Longrightarrow> distinct (map fst (apply_delta m p d))"
  by (simp add: apply_delta_def map_set_def map_delete_def Let_def distinct_update distinct_delete)

lemma centsToLevels_mset:
  assumes "\<forall>m. mset (rng m) = mset m"
  shows "mset (centsToLevels rng m) = image_mset cents_level (mset m)"
proof -
  have "mset (centsToLevels rng m) = image_mset cents_level (mset (rng m))"
    by (simp add: centsToLevels_def)
  with assms show ?thesis by simp
qed

lemma emitUpdate_room:
  assumes "length (updates ka) < 1024"
  shows "emitUpdate rng now ka book =
     ka\<lparr>updates := updates ka @
        [\<lparr>Exchange = ExchangeKalshi, MarketID = ob_MarketID book, AssetID = ob_MarketTicker book,
          Bids = centsToLevels rng (Yes book), Asks = centsToLevels rng (No book),
          Timestamp = now, Hash = []\<rparr>]\<rparr>"
  using assms by (simp add: emitUpdate_def)

lemma emitUpdate_full:
  assumes "\<not> length (updates ka) < 1024"
  shows "emitUpdate rng now ka book = ka"
  using assms by (simp add: emitUpdate_def)

lemma emitUpdate_books: "books (emitUpdate rng now ka book) = books ka"
  by (simp add: emitUpdate_def Let_def)

lemma handleDelta_unknown:
  "books ka (d_MarketTicker delta) = None \<Longrightarrow> handleDelta rng now ka (Some delta) = ka"
  by (simp add: handleDelta_def)

text \<open>
  C6 (amended). Let \<open>rng\<close> be any iteration order of a map (a permutation of its
  entries). For a delta whose market has a book from an earlier snapshot: the quantity
  stored at the delta's price on the delta's side (the no side for "no", the yes side
  otherwise) becomes the old quantity plus the delta, and the level is deleted when that
  sum is \<open>\<le> 0\<close>; the other side and the other markets are unchanged. Then, if the
  decoder's \<open>updates\<close> channel has room (fewer than 1024 updates waiting), a full
  \<open>BookUpdate\<close> is emitted: venue kalshi, the book's identifiers, one bid level for every
  yes entry and one ask level for every no entry, each with price cents / 100 and size
  the quantity. If the channel is full, the update is dropped and the book keeps the
  change. A delta for a market with no book leaves the whole decoder state unchanged and
  emits nothing.
\<close>

theorem kalshi_delta_applies_and_emits:
  assumes perm: "\<forall>m. mset (rng m) = mset m"
    and known: "books ka (d_MarketTicker delta) = Some book"
  shows "(\<exists>book'.
       books (handleDelta rng now ka (Some delta)) = (books ka)(d_MarketTicker delta \<mapsto> book')
     \<and> (if d_Side delta = ''no''
         then book' = book\<lparr>No := apply_delta (No book) (d_Price delta) (d_Delta delta)\<rparr>
         else book' = book\<lparr>Yes := apply_delta (Yes book) (d_Price delta) (d_Delta delta)\<rparr>)
     \<and> (if length (updates ka) < 1024
         then \<exists>u. updates (handleDelta rng now ka (Some delta)) = updates ka @ [u]
                \<and> Exchange u = ExchangeKalshi \<and> MarketID u = ob_MarketID book
                \<and> AssetID u = ob_MarketTicker book
                \<and> mset (Bids u) = image_mset cents_level (mset (Yes book'))
                \<and> mset (Asks u) = image_mset cents_level (mset (No book'))
         else updates (handleDelta rng now ka (Some delta)) = updates ka))
    \<and> (\<forall>m p d. map_of (apply_delta m p d) =
          (if sint (map_get m p + d) \<le> 0 then (map_of m)(p := None)
           else (map_of m)(p \<mapsto> map_get m p + d)))
    \<and> (\<forall>e. Price (cents_level e) = real_of_int (sint (fst e)) / 100
           \<and> Size (cents_level e) = real_of_int (sint (snd e)))
    \<and> (\<forall>ka0 d0. books ka0 (d_MarketTicker d0) = None
          \<longrightarrow> handleDelta rng now ka0 (Some d0) = ka0)"
proof -
  define book' where "book' =
    (if d_Side delta = ''no''
     then book\<lparr>No := apply_delta (No book) (d_Price delta) (d_Delta delta)\<rparr>
     else book\<lparr>Yes := apply_delta (Yes book) (d_Price delta) (d_Delta delta)\<rparr>)"
  define ka1 where "ka1 = ka\<lparr>books := (books ka)(d_MarketTicker delta \<mapsto> book')\<rparr>"
  have hd: "handleDelta rng now ka (Some delta) = emitUpdate rng now ka1 book'"
    using known by (simp add: handleDelta_def book'_def ka1_def Let_def)
  have ids: "ob_MarketID book' = ob_MarketID book" "ob_MarketTicker book' = ob_MarketTicker book"
    by (simp_all add: book'_def)
  have up1: "updates ka1 = updates ka" by (simp add: ka1_def)
  have bk: "books (handleDelta rng now ka (Some delta)) = (books ka)(d_MarketTicker delta \<mapsto> book')"
    by (simp add: hd emitUpdate_books ka1_def)
  have side: "if d_Side delta = ''no''
         then book' = book\<lparr>No := apply_delta (No book) (d_Price delta) (d_Delta delta)\<rparr>
         else book' = book\<lparr>Yes := apply_delta (Yes book) (d_Price delta) (d_Delta delta)\<rparr>"
    by (simp add: book'_def)
  have emit: "if length (updates ka) < 1024
         then \<exists>u. updates (handleDelta rng now ka (Some delta)) = updates ka @ [u]
                \<and> Exchange u = ExchangeKalshi \<and> MarketID u = ob_MarketID book
                \<and> AssetID u = ob_MarketTicker book
                \<and> mset (Bids u) = image_mset cents_level (mset (Yes book'))
                \<and> mset (Asks u) = image_mset cents_level (mset (No book'))
         else updates (handleDelta rng now ka (Some delta)) = updates ka"
  proof (cases "length (updates ka) < 1024")
    case True
    then have "length (updates ka1) < 1024" by (simp add: up1)
    from emitUpdate_room [OF this, of rng now book'] True show ?thesis
      by (simp add: hd up1 ids centsToLevels_mset [OF perm])
  next
    case False
    then have "\<not> length (updates ka1) < 1024" by (simp add: up1)
    from emitUpdate_full [OF this, of rng now book'] False show ?thesis
      by (simp add: hd up1)
  qed
  have level: "\<forall>e. Price (cents_level e) = real_of_int (sint (fst e)) / 100
           \<and> Size (cents_level e) = real_of_int (sint (snd e))"
    by (simp add: cents_level_def)
  from bk side emit have first: "\<exists>book'.
       books (handleDelta rng now ka (Some delta)) = (books ka)(d_MarketTicker delta \<mapsto> book')
     \<and> (if d_Side delta = ''no''
         then book' = book\<lparr>No := apply_delta (No book) (d_Price delta) (d_Delta delta)\<rparr>
         else book' = book\<lparr>Yes := apply_delta (Yes book) (d_Price delta) (d_Delta delta)\<rparr>)
     \<and> (if length (updates ka) < 1024
         then \<exists>u. updates (handleDelta rng now ka (Some delta)) = updates ka @ [u]
                \<and> Exchange u = ExchangeKalshi \<and> MarketID u = ob_MarketID book
                \<and> AssetID u = ob_MarketTicker book
                \<and> mset (Bids u) = image_mset cents_level (mset (Yes book'))
                \<and> mset (Asks u) = image_mset cents_level (mset (No book'))
         else updates (handleDelta rng now ka (Some delta)) = updates ka)"
    by blast
  from first level show ?thesis
    by (simp add: apply_delta_map_of handleDelta_unknown)
qed

text \<open>
  The snapshot-then-delta scenario, iterating maps in reverse: after the snapshot the
  channel holds one update; the delta adds a second one with the bid 0.48 at 200.
\<close>

lemma kalshi_after_snapshot_eq:
  "kalshi_after_snapshot = \<lparr>raw = 0,
     updates = [\<lparr>Exchange = ExchangeKalshi, MarketID = ''mkt-1'', AssetID = ''FED-DEC'',
                 Bids = [\<lparr>Price = 48 / 100, Size = 300\<rparr>], Asks = [\<lparr>Price = 54 / 100, Size = 200\<rparr>],
                 Timestamp = 10, Hash = []\<rparr>],
     books = [''FED-DEC'' \<mapsto> example_book], cmdID = 0\<rparr>"
  by (simp add: kalshi_after_snapshot_def handleSnapshot_def kalshi_New_def Subscribe_def
        NewWSClient_def example_snapshot_def example_book_def emitUpdate_def centsToLevels_def
        cents_level_def map_set_def Let_def)

lemma kalshi_example_delta:
  "handleDelta rev 20 kalshi_after_snapshot (Some example_delta) =
     kalshi_after_snapshot\<lparr>updates := updates kalshi_after_snapshot @
         [\<lparr>Exchange = ExchangeKalshi, MarketID = ''mkt-1'', AssetID = ''FED-DEC'',
           Bids = [\<lparr>Price = 48 / 100, Size = 200\<rparr>], Asks = [\<lparr>Price = 54 / 100, Size = 200\<rparr>],
           Timestamp = 20, Hash = []\<rparr>],
        books := [''FED-DEC'' \<mapsto> example_book\<lparr>Yes := [(48, 200)]\<rparr>]\<rparr>"
  by (simp add: kalshi_after_snapshot_eq handleDelta_def example_delta_def example_book_def
        emitUpdate_def centsToLevels_def cents_level_def apply_delta_def map_get_def
        map_set_def map_delete_def Let_def)

theorem kalshi_delta_applies_and_emits_witness:
  "books kalshi_after_snapshot (d_MarketTicker example_delta) = Some example_book
   \<and> length (updates kalshi_after_snapshot) < 1024
   \<and> (\<exists>u. updates (handleDelta rev 20 kalshi_after_snapshot (Some example_delta))
             = updates kalshi_after_snapshot @ [u]
          \<and> Exchange u = ExchangeKalshi \<and> MarketID u = ''mkt-1'')
   \<and> Bids (updates (handleDelta rev 20 kalshi_after_snapshot (Some example_delta)) ! 1)
       = [\<lparr>Price = 48 / 100, Size = 200\<rparr>]"
proof -
  have perm: "\<forall>m :: cents_map. mset (rev m) = mset m" by simp
  have known: "books kalshi_after_snapshot (d_MarketTicker example_delta) = Some example_book"
    by (simp add: kalshi_after_snapshot_eq example_delta_def)
  have room: "length (updates kalshi_after_snapshot) < 1024"
    by (simp add: kalshi_after_snapshot_eq)
  have id: "ob_MarketID example_book = ''mkt-1''" by (simp add: example_book_def)
  from kalshi_delta_applies_and_emits [OF perm known, of 20] room id
  have "\<exists>u. updates (handleDelta rev 20 kalshi_after_snapshot (Some example_delta))
             = updates kalshi_after_snapshot @ [u]
          \<and> Exchange u = ExchangeKalshi \<and> MarketID u = ''mkt-1''"
    by auto
  moreover have "Bids (updates (handleDelta rev 20 kalshi_after_snapshot (Some example_delta)) ! 1)
       = [\<lparr>Price = 48 / 100, Size = 200\<rparr>]"
    unfolding kalshi_example_delta by (simp add: kalshi_after_snapshot_eq)
  ultimately show ?thesis using known room by blast
qed

text \<open>
  The claim as first stated has every delta for a known market followed by an emitted
  update. With 1024 updates waiting in the channel, the delta changes the book and
  nothing is emitted.
\<close>

theorem kalshi_delta_dropped_when_channel_full_counterexample:
  "books kalshi_full ''FED-DEC'' = Some example_book
   \<and> length (updates kalshi_full) = 1024
   \<and> updates (handleDelta rev 20 kalshi_full (Some example_delta)) = updates kalshi_full
   \<and> books (handleDelta rev 20 kalshi_full (Some example_delta)) ''FED-DEC''
        = Some (example_book\<lparr>Yes := [(48, 200)]\<rparr>)"
  by (simp add: kalshi_full_def handleDelta_def example_delta_def example_book_def
        emitUpdate_def apply_delta_def map_get_def map_set_def map_delete_def Let_def)

section \<open>Properties of the persistence writer\<close>











section \<open>Properties of the order validator\<close>

lemma order_type_distinct:
  "Limit \<noteq> Market" "Limit \<noteq> StopLoss" "Market \<noteq> StopLoss"
  by (simp_all add: Limit_def Market_def StopLoss_def)

text \<open>Not-a-number is on neither side of any value.\<close>

lemma nan_compares_false:
  "\<not> f64_lt NaN y" "\<not> f64_lt x NaN" "\<not> f64_le NaN y" "\<not> f64_le x NaN"
  "\<not> f64_ge NaN y" "\<not> f64_ge x NaN"
  by (cases x; cases y; simp add: f64_ge_def)+

lemma DefaultConstraints_known:
  "exchange = ExchangePolymarket \<or> exchange = ExchangeKalshi
     \<Longrightarrow> DefaultConstraints exchange = Some \<lparr>MinPrice = Fin 0, MaxPrice = Fin 1, MinLotSize = Fin 1\<rparr>"
  by (auto simp: DefaultConstraints_def)

lemma DefaultConstraints_range:
  "DefaultConstraints exchange = Some ec \<Longrightarrow> MinPrice ec = Fin 0 \<and> MaxPrice ec = Fin 1"
  by (auto simp: DefaultConstraints_def split: if_splits)

text \<open>
  What the price check does exclude: a limit or stop-loss order that passes the default
  validator has a price strictly between 0 and 1, or a price that is not a number.
\<close>

lemma validated_price_inside_or_nan:
  assumes ok: "validate (NewValidator g) order = None"
    and lim: "o_Type order = Limit \<or> o_Type order = StopLoss"
  shows "o_Price order = NaN \<or> (\<exists>p. o_Price order = Fin p \<and> 0 < p \<and> p < 1)"
proof -
  from ok obtain ec where ec: "DefaultConstraints (o_Exchange order) = Some ec"
    and pass: "\<not> ((o_Type order = Limit \<or> o_Type order = StopLoss)
                 \<and> (f64_le (o_Price order) (MinPrice ec) \<or> f64_ge (o_Price order) (MaxPrice ec)))"
    by (auto simp: validate_def NewValidator_def split: if_splits option.splits)
  from DefaultConstraints_range [OF ec] pass lim
  have "\<not> f64_le (o_Price order) (Fin 0)" "\<not> f64_ge (o_Price order) (Fin 1)"
    by auto
  then show ?thesis
    by (cases "o_Price order") (auto simp: f64_ge_def)
qed

lemma validOrder_passes: "validate (NewValidator open_gate) validOrder = None"
  by (simp add: validate_def NewValidator_def validOrder_def open_gate_def
        DefaultConstraints_def Buy_def Sell_def Limit_def f64_ge_def)

text \<open>
  C8 (the code departs from the claim). The price check is
  \<open>order.Price <= ec.MinPrice || order.Price >= ec.MaxPrice\<close>. For a price that is not a
  number both comparisons are false, so a limit order priced not-a-number passes the check
  and, being otherwise in order, is validated: its status goes to validated although its
  price is not between 0 and 1. The same order at price 0 and at price 1 is rejected with
  \<open>ErrPriceOutOfRange\<close>.
\<close>

theorem validate_accepts_nan_price:
  "o_Type (validOrder\<lparr>o_Price := NaN\<rparr>) = Limit
   \<and> \<not> f64_lt (Fin 0) (o_Price (validOrder\<lparr>o_Price := NaN\<rparr>))
   \<and> \<not> f64_lt (o_Price (validOrder\<lparr>o_Price := NaN\<rparr>)) (Fin 1)
   \<and> Validate (NewValidator open_gate) (validOrder\<lparr>o_Price := NaN\<rparr>)
       = (None, validOrder\<lparr>o_Price := NaN, o_Status := StatusValidated\<rparr>)
   \<and> Validate (NewValidator open_gate) (validOrder\<lparr>o_Price := Fin 0\<rparr>)
       = (Some ErrPriceOutOfRange, validOrder\<lparr>o_Price := Fin 0, o_Status := StatusRejected\<rparr>)
   \<and> Validate (NewValidator open_gate) (validOrder\<lparr>o_Price := Fin 1\<rparr>)
       = (Some ErrPriceOutOfRange, validOrder\<lparr>o_Price := Fin 1, o_Status := StatusRejected\<rparr>)"
proof -
  have nan: "validate (NewValidator open_gate) (validOrder\<lparr>o_Price := NaN\<rparr>) = None"
    by (simp add: validate_def NewValidator_def validOrder_def open_gate_def
          DefaultConstraints_def Buy_def Sell_def Limit_def f64_ge_def)
  have zero: "validate (NewValidator open_gate) (validOrder\<lparr>o_Price := Fin 0\<rparr>)
                = Some ErrPriceOutOfRange"
    by (simp add: validate_def NewValidator_def validOrder_def open_gate_def
          DefaultConstraints_def Buy_def Sell_def Limit_def f64_ge_def)
  have one: "validate (NewValidator open_gate) (validOrder\<lparr>o_Price := Fin 1\<rparr>)
                = Some ErrPriceOutOfRange"
    by (simp add: validate_def NewValidator_def validOrder_def open_gate_def
          DefaultConstraints_def Buy_def Sell_def Limit_def f64_ge_def)
  have ty: "o_Type (validOrder\<lparr>o_Price := NaN\<rparr>) = Limit"
    by (simp add: validOrder_def)
  from nan zero one ty show ?thesis
    by (simp add: Validate_def)
qed

section \<open>When the decoders subscribe to the transport\<close>

text \<open>
  C9 (the code departs from the claim). The Kalshi decoder subscribes in \<open>New\<close>: a frame
  fanned out right after construction is waiting in its channel. The Polymarket decoder
  does not: \<open>New\<close> leaves the transport without a subscriber, a frame fanned out before
  \<open>Run\<close> starts reaches no channel, and the channel that \<open>Run\<close> then opens is empty.
\<close>

theorem poly_subscribes_only_in_run:
  "subs (snd (poly_New NewWSClient)) = []
   \<and> subs (fanOut (snd (poly_New NewWSClient)) example_frame) = []
   \<and> poly_Run_subscribe (fanOut (snd (poly_New NewWSClient)) example_frame)
       = (0, \<lparr>circuit = CircuitClosed, subs = [[]]\<rparr>)
   \<and> raw (fst (kalshi_New NewWSClient)) = 0
   \<and> subs (snd (kalshi_New NewWSClient)) = [[]]
   \<and> subs (fanOut (snd (kalshi_New NewWSClient)) example_frame) = [[example_frame]]"
  by (simp add: poly_New_def poly_Run_subscribe_def kalshi_New_def Subscribe_def fanOut_def
        NewWSClient_def)

end
